theory Spec2Isabelle
  imports Complex_Main "HOL-Library.AList" "HOL-Library.Sublist"
begin

section \<open>Common conventions\<close>

text \<open>
  Python dictionaries are modelled as maps where only lookup and update matter, and as
  association lists (updated with \<open>AList.update\<close>, which keeps the position of an existing
  key and appends a new one, like a Python dict) where the code iterates over them.
  Clock readings (\<open>time.time()\<close>) and fresh identifiers (\<open>uuid.uuid4()\<close>) are inputs of the
  operations. Times are real numbers. Strings are lists of characters, one \<open>char\<close> per
  code point, so \<open>length\<close> is Python's \<open>len\<close> on the ASCII range.
  Exceptions that leave a function are \<open>Inl\<close> values of type \<open>py_error\<close>.
\<close>

datatype py_error = KeyError | ValueError

text \<open>Python's \<open>xs[-n:]\<close>: the last \<open>n\<close> elements; the whole list for \<open>n = 0\<close>.\<close>

definition last_n :: "nat \<Rightarrow> 'a list \<Rightarrow> 'a list" where
  "last_n n xs = (if n = 0 then xs else drop (length xs - n) xs)"

text \<open>Python's \<open>list.index\<close>: the first position of an element, or ValueError (\<open>None\<close>).\<close>

fun list_index :: "'a list \<Rightarrow> 'a \<Rightarrow> nat option" where
  "list_index [] y = None"
| "list_index (x # xs) y =
     (if x = y then Some 0 else map_option Suc (list_index xs y))"

section \<open>global\_chat.py: the global chat system\<close>

datatype UserRole = GUEST | USER | CREATOR | FOUNDER | MODERATOR | ADMIN

datatype MessageType = TEXT | IMAGE | FILE | CODE | SYSTEM | ANNOUNCEMENT

record ChatUser =
  user_id :: string
  username :: string
  display_name :: string
  role :: UserRole
  avatar_url :: string
  status :: string
  joined_at :: real
  last_seen :: real
  message_count :: int
  reputation :: int

text \<open>\<open>reactions\<close> is a dict from emoji to a list of user ids, or \<open>None\<close>.\<close>

record ChatMessage =
  message_id :: string
  msg_user_id :: string
  msg_username :: string
  content :: string
  message_type :: MessageType
  msg_channel_id :: string
  timestamp :: real
  edited_at :: "real option"
  reply_to :: "string option"
  reactions :: "(string \<times> string list) list option"
  attachments :: "string list option"

text \<open>A channel is a dict in the source; \<open>required_role\<close> is a key that may be absent.\<close>

record Channel =
  channel_id :: string
  name :: string
  description :: string
  channel_type :: string
  required_role :: "UserRole option"
  created_by :: string
  created_at :: real
  member_count :: int
  channel_message_count :: int
  rules :: "string list"

type_synonym websocket = nat

record GlobalChatSystem =
  users :: "string \<rightharpoonup> ChatUser"
  channels :: "(string \<times> Channel) list"
  messages :: "(string \<times> ChatMessage list) list"
  active_connections :: "string \<rightharpoonup> websocket set"
  user_connections :: "websocket \<rightharpoonup> string"
  user_message_history :: "string \<rightharpoonup> real list"

definition max_messages_per_channel :: nat where
  "max_messages_per_channel = 1000"

record limits =
  messages_per_minute :: nat
  characters_per_message :: nat

fun rate_limits :: "UserRole \<Rightarrow> limits" where
  "rate_limits GUEST = \<lparr>messages_per_minute = 5, characters_per_message = 500\<rparr>"
| "rate_limits USER = \<lparr>messages_per_minute = 10, characters_per_message = 1000\<rparr>"
| "rate_limits CREATOR = \<lparr>messages_per_minute = 20, characters_per_message = 2000\<rparr>"
| "rate_limits FOUNDER = \<lparr>messages_per_minute = 50, characters_per_message = 5000\<rparr>"
| "rate_limits MODERATOR = \<lparr>messages_per_minute = 100, characters_per_message = 10000\<rparr>"
| "rate_limits ADMIN = \<lparr>messages_per_minute = 1000, characters_per_message = 50000\<rparr>"

subsection \<open>\_initialize\_default\_channels and the constructor\<close>

definition default_channels :: "real \<Rightarrow> Channel list" where
  "default_channels now =
   [\<lparr>channel_id = ''general'', name = ''General'',
      description = ''General discussion about Valis AI'', channel_type = ''public'',
      required_role = None, created_by = ''system'', created_at = now,
      member_count = 0, channel_message_count = 0,
      rules = [''Be respectful to all community members'',
               ''No spam or excessive self-promotion'',
               ''Keep discussions relevant to AI and technology'',
               ''Use appropriate language'']\<rparr>,
    \<lparr>channel_id = ''creators'', name = ''Creators Hub'',
      description = ''For creators building with Valis AI'', channel_type = ''public'',
      required_role = None, created_by = ''system'', created_at = now,
      member_count = 0, channel_message_count = 0,
      rules = [''Share your creations and get feedback'', ''Collaborate on projects'',
               ''Help other creators'']\<rparr>,
    \<lparr>channel_id = ''founders'', name = ''Founders Circle'',
      description = ''Exclusive channel for founders and entrepreneurs'',
      channel_type = ''restricted'', required_role = Some FOUNDER,
      created_by = ''system'', created_at = now,
      member_count = 0, channel_message_count = 0,
      rules = [''Business strategy discussions'', ''Networking and partnerships'',
               ''Exclusive founder insights'']\<rparr>,
    \<lparr>channel_id = ''support'', name = ''Support'',
      description = ''Get help with Valis AI'', channel_type = ''public'',
      required_role = None, created_by = ''system'', created_at = now,
      member_count = 0, channel_message_count = 0,
      rules = [''Ask questions about using Valis AI'', ''Report bugs and issues'',
               ''Get technical support'']\<rparr>,
    \<lparr>channel_id = ''announcements'', name = ''Announcements'',
      description = ''Official Valis AI announcements'', channel_type = ''read_only'',
      required_role = None, created_by = ''system'', created_at = now,
      member_count = 0, channel_message_count = 0,
      rules = [''Official announcements only'', ''Product updates and news'',
               ''Community events'']\<rparr>]"

definition add_default_channel :: "Channel \<Rightarrow> GlobalChatSystem \<Rightarrow> GlobalChatSystem" where
  "add_default_channel channel s =
     s\<lparr>channels := AList.update (channel_id channel) channel (channels s),
       messages := AList.update (channel_id channel) [] (messages s),
       active_connections := (active_connections s)(channel_id channel \<mapsto> {})\<rparr>"

definition initialize_default_channels :: "real \<Rightarrow> GlobalChatSystem \<Rightarrow> GlobalChatSystem" where
  "initialize_default_channels now s = fold add_default_channel (default_channels now) s"

definition init_chat :: "real \<Rightarrow> GlobalChatSystem" where
  "init_chat now =
     initialize_default_channels now
       \<lparr>users = Map.empty, channels = [], messages = [],
        active_connections = Map.empty, user_connections = Map.empty,
        user_message_history = Map.empty\<rparr>"

subsection \<open>register\_user\<close>

definition register_user ::
  "GlobalChatSystem \<Rightarrow> string \<Rightarrow> string \<Rightarrow> string \<Rightarrow> UserRole \<Rightarrow> real \<Rightarrow> real
     \<Rightarrow> ChatUser \<times> GlobalChatSystem" where
  "register_user s uid uname dname r t_joined t_seen =
     (let chat_user = \<lparr>user_id = uid, username = uname, display_name = dname, role = r,
                       avatar_url = '''', status = ''online'', joined_at = t_joined,
                       last_seen = t_seen, message_count = 0, reputation = 0\<rparr>
      in (chat_user,
          s\<lparr>users := (users s)(uid \<mapsto> chat_user),
            user_message_history := (user_message_history s)(uid \<mapsto> [])\<rparr>))"

subsection \<open>Permissions\<close>

definition role_hierarchy :: "UserRole list" where
  "role_hierarchy = [GUEST, USER, CREATOR, FOUNDER, MODERATOR, ADMIN]"

definition has_role_or_higher :: "UserRole \<Rightarrow> UserRole \<Rightarrow> py_error + bool" where
  "has_role_or_higher user_role req_role =
     (case list_index role_hierarchy user_role of
        None \<Rightarrow> Inl ValueError
      | Some user_level \<Rightarrow>
          (case list_index role_hierarchy req_role of
             None \<Rightarrow> Inl ValueError
           | Some required_level \<Rightarrow> Inr (user_level \<ge> required_level)))"

definition can_user_send_message :: "ChatUser \<Rightarrow> Channel \<Rightarrow> py_error + bool" where
  "can_user_send_message user channel =
     (if channel_type channel = ''read_only''
        then Inr (role user \<in> set [MODERATOR, ADMIN])
      else if channel_type channel = ''restricted''
        then has_role_or_higher (role user)
               (case required_role channel of None \<Rightarrow> USER | Some r \<Rightarrow> r)
      else Inr True)"

definition can_user_join_channel :: "ChatUser \<Rightarrow> Channel \<Rightarrow> py_error + bool" where
  "can_user_join_channel user channel =
     (if channel_type channel = ''restricted''
        then has_role_or_higher (role user)
               (case required_role channel of None \<Rightarrow> USER | Some r \<Rightarrow> r)
      else Inr True)"

subsection \<open>\_check\_rate\_limit\<close>

definition check_rate_limit ::
  "GlobalChatSystem \<Rightarrow> string \<Rightarrow> string \<Rightarrow> real \<Rightarrow> py_error + (bool \<times> GlobalChatSystem)" where
  "check_rate_limit s uid body current_time =
     (case users s uid of
        None \<Rightarrow> Inl KeyError
      | Some user \<Rightarrow>
          (case user_message_history s uid of
             None \<Rightarrow> Inl KeyError
           | Some hist \<Rightarrow>
               (let lim = rate_limits (role user);
                    hist' = filter (\<lambda>msg_time. current_time - msg_time < 60) hist;
                    s1 = s\<lparr>user_message_history := (user_message_history s)(uid \<mapsto> hist')\<rparr>
                in if length hist' \<ge> messages_per_minute lim then Inr (False, s1)
                   else if length body > characters_per_message lim then Inr (False, s1)
                   else Inr (True,
                          s1\<lparr>user_message_history :=
                               (user_message_history s1)(uid \<mapsto> hist' @ [current_time])\<rparr>))))"

subsection \<open>send\_message\<close>

text \<open>
  The values \<open>send_message\<close> takes from its environment: the uuid of the new message and the
  three clock readings (in \<open>_check_rate_limit\<close>, for the message timestamp, for
  \<open>last_seen\<close>). The broadcast helpers only loop over the connections and do nothing.
\<close>

record send_env =
  new_uuid :: string
  t_check :: real
  t_msg :: real
  t_seen :: real

datatype send_response = SendError string | Sent string real

text \<open>The message object that \<open>send_message\<close> constructs.\<close>

definition new_chat_message ::
  "string \<Rightarrow> string \<Rightarrow> string \<Rightarrow> string \<Rightarrow> MessageType \<Rightarrow> string \<Rightarrow> real \<Rightarrow> string option
     \<Rightarrow> ChatMessage" where
  "new_chat_message mid uid uname body mtype cid t rto =
     \<lparr>message_id = mid, msg_user_id = uid, msg_username = uname, content = body,
      message_type = mtype, msg_channel_id = cid, timestamp = t, edited_at = None,
      reply_to = rto, reactions = Some [], attachments = Some []\<rparr>"

definition send_message ::
  "GlobalChatSystem \<Rightarrow> string \<Rightarrow> string \<Rightarrow> string \<Rightarrow> MessageType \<Rightarrow> string option \<Rightarrow> send_env
     \<Rightarrow> py_error + (send_response \<times> GlobalChatSystem)" where
  "send_message s uid cid body mtype rto env =
     (case users s uid of
        None \<Rightarrow> Inr (SendError ''User not found'', s)
      | Some user \<Rightarrow>
     (case map_of (channels s) cid of
        None \<Rightarrow> Inr (SendError ''Channel not found'', s)
      | Some channel \<Rightarrow>
     (case can_user_send_message user channel of
        Inl e \<Rightarrow> Inl e
      | Inr False \<Rightarrow> Inr (SendError ''Permission denied'', s)
      | Inr True \<Rightarrow>
     (case check_rate_limit s uid body (t_check env) of
        Inl e \<Rightarrow> Inl e
      | Inr (False, s1) \<Rightarrow> Inr (SendError ''Rate limit exceeded'', s1)
      | Inr (True, s1) \<Rightarrow>
     (let message = new_chat_message (new_uuid env) uid (username user) body mtype cid
                      (t_msg env) rto
      in case map_of (messages s1) cid of
           None \<Rightarrow> Inl KeyError
         | Some msgs \<Rightarrow>
             (let msgs1 = msgs @ [message];
                  msgs2 = (if length msgs1 > max_messages_per_channel
                           then last_n max_messages_per_channel msgs1 else msgs1);
                  user' = user\<lparr>message_count := message_count user + 1,
                               last_seen := t_seen env\<rparr>;
                  channel' = channel\<lparr>channel_message_count :=
                                        channel_message_count channel + 1\<rparr>
              in Inr (Sent (message_id message) (timestamp message),
                      s1\<lparr>messages := AList.update cid msgs2 (messages s1),
                         users := (users s1)(uid \<mapsto> user'),
                         channels := AList.update cid channel' (channels s1)\<rparr>)))))))"

subsection \<open>join\_channel\<close>

text \<open>
  \<open>_get_channel_users\<close>: the users behind the connections of a channel. The source builds
  a list by iterating over a set; the model keeps the set of user records.
\<close>

definition get_channel_users :: "GlobalChatSystem \<Rightarrow> string \<Rightarrow> ChatUser set" where
  "get_channel_users s cid =
     (case active_connections s cid of
        None \<Rightarrow> {}
      | Some conns \<Rightarrow>
          Option.these ((\<lambda>ws. Option.bind (user_connections s ws) (users s)) ` conns))"

datatype join_response = JoinError string | Joined Channel "ChatMessage list" "ChatUser set"

definition join_channel ::
  "GlobalChatSystem \<Rightarrow> string \<Rightarrow> string \<Rightarrow> websocket
     \<Rightarrow> py_error + (join_response \<times> GlobalChatSystem)" where
  "join_channel s uid cid ws =
     (case users s uid of
        None \<Rightarrow> Inr (JoinError ''User not found'', s)
      | Some user \<Rightarrow>
     (case map_of (channels s) cid of
        None \<Rightarrow> Inr (JoinError ''Channel not found'', s)
      | Some channel \<Rightarrow>
     (case can_user_join_channel user channel of
        Inl e \<Rightarrow> Inl e
      | Inr False \<Rightarrow> Inr (JoinError ''Permission denied'', s)
      | Inr True \<Rightarrow>
     (case active_connections s cid of
        None \<Rightarrow> Inl KeyError
      | Some conns \<Rightarrow>
          (let s1 = s\<lparr>active_connections := (active_connections s)(cid \<mapsto> insert ws conns)\<rparr>
           in case map_of (messages s1) cid of
                None \<Rightarrow> Inl KeyError
              | Some msgs \<Rightarrow>
                  Inr (Joined channel (last_n 50 msgs) (get_channel_users s1 cid), s1))))))"

subsection \<open>\_find\_message and add\_reaction\<close>

text \<open>The first message with the given id, channel by channel in dict order.\<close>

definition find_message :: "GlobalChatSystem \<Rightarrow> string \<Rightarrow> ChatMessage option" where
  "find_message s mid = find (\<lambda>m. message_id m = mid) (concat (map snd (messages s)))"

text \<open>
  \<open>add_reaction\<close> mutates the message object that \<open>_find_message\<close> returned. Every message
  object is held by exactly one channel list, so the mutation is an update of the first
  message with that id in the first channel that has one.
\<close>

fun update_first :: "('a \<Rightarrow> bool) \<Rightarrow> ('a \<Rightarrow> 'a) \<Rightarrow> 'a list \<Rightarrow> 'a list" where
  "update_first P f [] = []"
| "update_first P f (x # xs) = (if P x then f x # xs else x # update_first P f xs)"

fun update_message ::
  "string \<Rightarrow> (ChatMessage \<Rightarrow> ChatMessage) \<Rightarrow> (string \<times> ChatMessage list) list
     \<Rightarrow> (string \<times> ChatMessage list) list" where
  "update_message mid f [] = []"
| "update_message mid f ((c, ms) # rest) =
     (case find (\<lambda>m. message_id m = mid) ms of
        None \<Rightarrow> (c, ms) # update_message mid f rest
      | Some _ \<Rightarrow> (c, update_first (\<lambda>m. message_id m = mid) f ms) # rest)"

text \<open>The three steps of \<open>add_reaction\<close> on the message found.\<close>

definition react :: "string \<Rightarrow> string \<Rightarrow> ChatMessage \<Rightarrow> ChatMessage" where
  "react uid emoji m =
     (let r0 = (case reactions m of None \<Rightarrow> [] | Some r \<Rightarrow> r);
          r1 = (if map_of r0 emoji = None then AList.update emoji [] r0 else r0);
          us = (case map_of r1 emoji of None \<Rightarrow> [] | Some us \<Rightarrow> us);
          r2 = (if uid \<notin> set us then AList.update emoji (us @ [uid]) r1 else r1)
      in m\<lparr>reactions := Some r2\<rparr>)"

datatype react_response = ReactError string | ReactionAdded string string

definition add_reaction ::
  "GlobalChatSystem \<Rightarrow> string \<Rightarrow> string \<Rightarrow> string \<Rightarrow> react_response \<times> GlobalChatSystem" where
  "add_reaction s uid mid emoji =
     (case find_message s mid of
        None \<Rightarrow> (ReactError ''Message not found'', s)
      | Some message \<Rightarrow>
          (ReactionAdded mid emoji,
           s\<lparr>messages := update_message mid (react uid emoji) (messages s)\<rparr>))"

text \<open>The users who reacted to a message with an emoji.\<close>

definition reaction_users :: "ChatMessage \<Rightarrow> string \<Rightarrow> string list" where
  "reaction_users m emoji =
     (case reactions m of
        None \<Rightarrow> []
      | Some r \<Rightarrow> (case map_of r emoji of None \<Rightarrow> [] | Some us \<Rightarrow> us))"

subsection \<open>Scenarios over the chat system\<close>

text \<open>A series of calls of \<open>_check_rate_limit\<close> by one user: (message, clock reading) pairs.\<close>

fun check_all ::
  "GlobalChatSystem \<Rightarrow> string \<Rightarrow> (string \<times> real) list \<Rightarrow> py_error + (bool list \<times> GlobalChatSystem)" where
  "check_all s uid [] = Inr ([], s)"
| "check_all s uid ((body, t) # rest) =
     (case check_rate_limit s uid body t of
        Inl e \<Rightarrow> Inl e
      | Inr (ok, s1) \<Rightarrow>
          (case check_all s1 uid rest of
             Inl e \<Rightarrow> Inl e
           | Inr (oks, s2) \<Rightarrow> Inr (ok # oks, s2)))"

definition guest_chat :: GlobalChatSystem where
  "guest_chat = snd (register_user (init_chat 0) ''u1'' ''alice'' ''Alice'' GUEST 0 0)"

definition guest_chat_sent :: GlobalChatSystem where
  "guest_chat_sent =
     (case check_rate_limit guest_chat ''u1'' ''hello'' 0 of
        Inr (ok, s) \<Rightarrow> s
      | Inl e \<Rightarrow> guest_chat)"

text \<open>
  The order of the roles as the specification gives it:
  GUEST < USER < CREATOR < FOUNDER < MODERATOR < ADMIN.
\<close>

fun spec_role_rank :: "UserRole \<Rightarrow> nat" where
  "spec_role_rank GUEST = 0"
| "spec_role_rank USER = 1"
| "spec_role_rank CREATOR = 2"
| "spec_role_rank FOUNDER = 3"
| "spec_role_rank MODERATOR = 4"
| "spec_role_rank ADMIN = 5"

definition admin_chat :: GlobalChatSystem where
  "admin_chat = snd (register_user guest_chat ''u2'' ''root'' ''Root'' ADMIN 0 0)"

definition guest_chat_posted :: GlobalChatSystem where
  "guest_chat_posted =
     (case send_message guest_chat ''u1'' ''general'' ''hello'' TEXT None
             \<lparr>new_uuid = ''m1'', t_check = 1, t_msg = 2, t_seen = 3\<rparr> of
        Inr (r, s) \<Rightarrow> s
      | Inl e \<Rightarrow> guest_chat)"

definition message_m1 :: ChatMessage where
  "message_m1 = \<lparr>message_id = ''m1'', msg_user_id = ''u1'', msg_username = ''alice'',
      content = ''hello'', message_type = TEXT, msg_channel_id = ''general'', timestamp = 2,
      edited_at = None, reply_to = None, reactions = Some [], attachments = Some []\<rparr>"

text \<open>
  A series of calls of \<open>send_message\<close>, the requests answered with a message id, and what
  identifies a stored message: its id, author and content.
\<close>

record send_request =
  req_user :: string
  req_channel :: string
  req_body :: string
  req_type :: MessageType
  req_reply_to :: "string option"
  req_env :: send_env

fun send_all ::
  "GlobalChatSystem \<Rightarrow> send_request list \<Rightarrow> py_error + (send_response list \<times> GlobalChatSystem)" where
  "send_all s [] = Inr ([], s)"
| "send_all s (r # rest) =
     (case send_message s (req_user r) (req_channel r) (req_body r) (req_type r)
             (req_reply_to r) (req_env r) of
        Inl e \<Rightarrow> Inl e
      | Inr (resp, s1) \<Rightarrow>
          (case send_all s1 rest of
             Inl e \<Rightarrow> Inl e
           | Inr (resps, s2) \<Rightarrow> Inr (resp # resps, s2)))"

fun is_sent :: "send_response \<Rightarrow> bool" where
  "is_sent (Sent mid t) = True"
| "is_sent (SendError e) = False"

definition stored :: "ChatMessage \<Rightarrow> string \<times> string \<times> string" where
  "stored m = (message_id m, msg_user_id m, content m)"

definition delivered ::
  "string \<Rightarrow> send_request list \<Rightarrow> send_response list \<Rightarrow> (string \<times> string \<times> string) list" where
  "delivered cid reqs resps =
     map (\<lambda>p. (new_uuid (req_env (fst p)), req_user (fst p), req_body (fst p)))
       (filter (\<lambda>p. req_channel (fst p) = cid \<and> is_sent (snd p)) (zip reqs resps))"

text \<open>A user sending one message a minute to the general channel.\<close>

definition nth_request :: "nat \<Rightarrow> send_request" where
  "nth_request i =
     \<lparr>req_user = ''u1'', req_channel = ''general'', req_body = ''hello'', req_type = TEXT,
      req_reply_to = None,
      req_env = \<lparr>new_uuid = replicate (Suc i) CHR ''m'', t_check = 60 * real i,
                 t_msg = 60 * real i, t_seen = 60 * real i\<rparr>\<rparr>"

definition burst :: "nat \<Rightarrow> nat \<Rightarrow> send_request list" where
  "burst k n = map nth_request [k..<k + n]"

section \<open>autonomous\_intelligence.py: the task registry\<close>

datatype TaskType =
  WEBSITE_CREATION | PRESENTATION | IMAGE_GENERATION | VIDEO_CREATION | API_DEVELOPMENT
| FULL_STACK_APP | DATA_ANALYSIS | AUTOMATION | GENERAL_CHAT

datatype ExecutionStatus = PLANNING | EXECUTING | TESTING | DEPLOYING | COMPLETED | ERROR

text \<open>\<open>TaskType(value)\<close>: the member with that value, or ValueError.\<close>

definition TaskType_of :: "string \<Rightarrow> py_error + TaskType" where
  "TaskType_of v =
     (if v = ''website_creation'' then Inr WEBSITE_CREATION
      else if v = ''presentation'' then Inr PRESENTATION
      else if v = ''image_generation'' then Inr IMAGE_GENERATION
      else if v = ''video_creation'' then Inr VIDEO_CREATION
      else if v = ''api_development'' then Inr API_DEVELOPMENT
      else if v = ''full_stack_app'' then Inr FULL_STACK_APP
      else if v = ''data_analysis'' then Inr DATA_ANALYSIS
      else if v = ''automation'' then Inr AUTOMATION
      else if v = ''general_chat'' then Inr GENERAL_CHAT
      else Inl ValueError)"

fun status_value :: "ExecutionStatus \<Rightarrow> string" where
  "status_value PLANNING = ''planning''"
| "status_value EXECUTING = ''executing''"
| "status_value TESTING = ''testing''"
| "status_value DEPLOYING = ''deploying''"
| "status_value COMPLETED = ''completed''"
| "status_value ERROR = ''error''"

text \<open>
  What a call of an external collaborator (the language model) does: it raises, with the
  text of the exception, or it returns a value.
\<close>

datatype 'a outcome = Raises string | Returns 'a

text \<open>
  The analysis dict that \<open>analyze_intent\<close> returns. When it is the parsed answer of the
  classifier any key may be missing (\<open>None\<close>).
\<close>

record analysis =
  an_task_type :: "string option"
  an_complexity :: "string option"
  an_confidence :: "real option"
  an_description :: "string option"
  an_technologies :: "string list option"
  an_steps :: "string list option"
  an_estimated_time :: "string option"
  an_deliverables :: "string list option"

datatype result_value = RAnalysis analysis | RString string

record Task =
  task_id :: string
  task_type :: TaskType
  task_description :: string
  task_status :: ExecutionStatus
  progress :: int
  steps :: "string list"
  current_step :: int
  results :: "(string \<times> result_value) list"
  task_created_at :: real
  updated_at :: real

record AutonomousIntelligence =
  active_tasks :: "string \<rightharpoonup> Task"
  memory :: "string \<rightharpoonup> result_value"

definition init_ai :: AutonomousIntelligence where
  "init_ai = \<lparr>active_tasks = Map.empty, memory = Map.empty\<rparr>"

subsection \<open>analyze\_intent and create\_task\<close>

text \<open>
  \<open>analyze_intent\<close>: the classifier's parsed answer, or the fallback analysis when the call
  or the parsing of the answer raises.
\<close>

definition analyze_intent :: "string \<Rightarrow> analysis outcome \<Rightarrow> analysis" where
  "analyze_intent user_input classifier =
     (case classifier of
        Returns a \<Rightarrow> a
      | Raises e \<Rightarrow>
          \<lparr>an_task_type = Some ''general_chat'', an_complexity = Some ''simple'',
           an_confidence = Some 0.5,
           an_description = Some (''General request: '' @ user_input),
           an_technologies = Some [],
           an_steps = Some [''Process request'', ''Generate response''],
           an_estimated_time = Some ''1 minute'',
           an_deliverables = Some [''AI response'']\<rparr>)"

text \<open>
  \<open>create_task\<close>. Its inputs from the environment are the classifier's outcome, the uuid
  of the new task and the two clock readings. A missing key of the analysis is a KeyError
  and an unknown task type a ValueError, both outside any \<open>try\<close>.
\<close>

definition create_task ::
  "AutonomousIntelligence \<Rightarrow> string \<Rightarrow> analysis outcome \<Rightarrow> string \<Rightarrow> real \<Rightarrow> real
     \<Rightarrow> py_error + (string \<times> AutonomousIntelligence)" where
  "create_task s user_input classifier new_id t_created t_updated =
     (let a = analyze_intent user_input classifier
      in case an_task_type a of
           None \<Rightarrow> Inl KeyError
         | Some tt \<Rightarrow>
        (case TaskType_of tt of
           Inl e \<Rightarrow> Inl e
         | Inr ty \<Rightarrow>
        (case an_description a of
           None \<Rightarrow> Inl KeyError
         | Some d \<Rightarrow>
        (case an_steps a of
           None \<Rightarrow> Inl KeyError
         | Some st \<Rightarrow>
             (let task = \<lparr>task_id = new_id, task_type = ty, task_description = d,
                          task_status = PLANNING, progress = 0, steps = st, current_step = 0,
                          results = [(''analysis'', RAnalysis a),
                                     (''user_input'', RString user_input)],
                          task_created_at = t_created, updated_at = t_updated\<rparr>
              in Inr (new_id, s\<lparr>active_tasks := (active_tasks s)(new_id \<mapsto> task)\<rparr>))))))"

subsection \<open>execute\_task and the executors\<close>

text \<open>
  What the model call inside an executor does: the call raises; or it returns an answer
  from which the content cannot be read (reading it raises); or it returns the content.
\<close>

datatype llm_outcome = CallRaises string | BadResponse string | Content string

datatype exec_response =
  ExecError string
| ExecSuccess string string int "(string \<times> result_value) list"

definition set_result :: "string \<Rightarrow> string \<Rightarrow> Task \<Rightarrow> Task" where
  "set_result k v task = task\<lparr>results := AList.update k (RString v) (results task)\<rparr>"

text \<open>The \<open>except\<close> branch that all executors share.\<close>

definition fail_task :: "string \<Rightarrow> Task \<Rightarrow> exec_response \<times> Task" where
  "fail_task e task = (ExecError e, set_result ''error'' e (task\<lparr>task_status := ERROR\<rparr>))"

definition success_response :: "Task \<Rightarrow> exec_response \<times> Task" where
  "success_response task =
     (ExecSuccess (task_id task) (status_value (task_status task)) (progress task)
        (results task), task)"

definition execute_website_creation :: "Task \<Rightarrow> llm_outcome \<Rightarrow> real \<Rightarrow> exec_response \<times> Task" where
  "execute_website_creation task llm t =
     (case llm of
        CallRaises e \<Rightarrow> fail_task e task
      | BadResponse e \<Rightarrow>
          fail_task e (task\<lparr>progress := 50, current_step := 2, task_status := TESTING,
                             updated_at := t\<rparr>)
      | Content c \<Rightarrow>
          success_response
            (set_result ''deployment_url''
               (''https://valis-ai-'' @ take 8 (task_id task) @ ''.vercel.app'')
               ((set_result ''status'' ''Website generated successfully''
                  (set_result ''generated_content'' c
                     (task\<lparr>progress := 50, current_step := 2, task_status := TESTING,
                            updated_at := t\<rparr>)))
                \<lparr>progress := 100, task_status := COMPLETED\<rparr>)))"

definition execute_presentation_creation :: "Task \<Rightarrow> llm_outcome \<Rightarrow> exec_response \<times> Task" where
  "execute_presentation_creation task llm =
     (case llm of
        CallRaises e \<Rightarrow> fail_task e task
      | BadResponse e \<Rightarrow> fail_task e (task\<lparr>progress := 100, task_status := COMPLETED\<rparr>)
      | Content c \<Rightarrow>
          success_response
            (set_result ''status'' ''Presentation created successfully''
               (set_result ''presentation_content'' c
                  (task\<lparr>progress := 100, task_status := COMPLETED\<rparr>))))"

definition execute_image_generation :: "Task \<Rightarrow> llm_outcome \<Rightarrow> exec_response \<times> Task" where
  "execute_image_generation task llm =
     (case llm of
        CallRaises e \<Rightarrow> fail_task e task
      | BadResponse e \<Rightarrow> fail_task e (task\<lparr>progress := 100, task_status := COMPLETED\<rparr>)
      | Content c \<Rightarrow>
          success_response
            (set_result ''status'' ''Image generated successfully''
               (set_result ''image_url'' c
                  (task\<lparr>progress := 100, task_status := COMPLETED\<rparr>))))"

definition execute_api_development :: "Task \<Rightarrow> llm_outcome \<Rightarrow> exec_response \<times> Task" where
  "execute_api_development task llm =
     (case llm of
        CallRaises e \<Rightarrow> fail_task e task
      | BadResponse e \<Rightarrow> fail_task e (task\<lparr>progress := 100, task_status := COMPLETED\<rparr>)
      | Content c \<Rightarrow>
          success_response
            (set_result ''api_url''
               (''https://api-valis-'' @ take 8 (task_id task) @ ''.vercel.app'')
               (set_result ''status'' ''API created successfully''
                  (set_result ''api_code'' c
                     (task\<lparr>progress := 100, task_status := COMPLETED\<rparr>)))))"

definition execute_fullstack_development :: "Task \<Rightarrow> llm_outcome \<Rightarrow> exec_response \<times> Task" where
  "execute_fullstack_development task llm =
     (case llm of
        CallRaises e \<Rightarrow> fail_task e task
      | BadResponse e \<Rightarrow> fail_task e (task\<lparr>progress := 100, task_status := COMPLETED\<rparr>)
      | Content c \<Rightarrow>
          success_response
            (set_result ''backend_url''
               (''https://api-valis-'' @ take 8 (task_id task) @ ''.vercel.app'')
               (set_result ''frontend_url''
                  (''https://app-valis-'' @ take 8 (task_id task) @ ''.vercel.app'')
                  (set_result ''status'' ''Full-stack application created successfully''
                     (set_result ''application_code'' c
                        (task\<lparr>progress := 100, task_status := COMPLETED\<rparr>))))))"

text \<open>
  \<open>_execute_general_response\<close> reads \<open>task.results["user_input"]\<close> inside its \<open>try\<close>: a
  missing key is caught like a failure of the call; the text of that KeyError is the
  quoted key.
\<close>

definition execute_general_response :: "Task \<Rightarrow> llm_outcome \<Rightarrow> exec_response \<times> Task" where
  "execute_general_response task llm =
     (case map_of (results task) ''user_input'' of
        None \<Rightarrow> fail_task (CHR 0x27 # ''user_input'' @ [CHR 0x27]) task
      | Some u \<Rightarrow>
     (case llm of
        CallRaises e \<Rightarrow> fail_task e task
      | BadResponse e \<Rightarrow> fail_task e (task\<lparr>progress := 100, task_status := COMPLETED\<rparr>)
      | Content c \<Rightarrow>
          success_response
            (set_result ''status'' ''Response generated successfully''
               (set_result ''response'' c
                  (task\<lparr>progress := 100, task_status := COMPLETED\<rparr>)))))"

text \<open>The \<open>if\<close>/\<open>elif\<close> chain of \<open>execute_task\<close> that picks the executor.\<close>

definition run_executor :: "Task \<Rightarrow> llm_outcome \<Rightarrow> real \<Rightarrow> exec_response \<times> Task" where
  "run_executor task llm t2 =
     (if task_type task = WEBSITE_CREATION then execute_website_creation task llm t2
      else if task_type task = PRESENTATION then execute_presentation_creation task llm
      else if task_type task = IMAGE_GENERATION then execute_image_generation task llm
      else if task_type task = API_DEVELOPMENT then execute_api_development task llm
      else if task_type task = FULL_STACK_APP then execute_fullstack_development task llm
      else execute_general_response task llm)"

definition execute_task ::
  "AutonomousIntelligence \<Rightarrow> string \<Rightarrow> llm_outcome \<Rightarrow> real \<Rightarrow> real
     \<Rightarrow> exec_response \<times> AutonomousIntelligence" where
  "execute_task s tid llm t1 t2 =
     (case active_tasks s tid of
        None \<Rightarrow> (ExecError ''Task not found'', s)
      | Some task0 \<Rightarrow>
          (let task = task0\<lparr>task_status := EXECUTING, updated_at := t1\<rparr>;
               (resp, task') = run_executor task llm t2
           in (resp, s\<lparr>active_tasks := (active_tasks s)(tid \<mapsto> task')\<rparr>)))"

subsection \<open>Scenarios over the task registry\<close>

text \<open>A task created while the classifier is down, then executed while the model is down.\<close>

definition ai_created :: AutonomousIntelligence where
  "ai_created =
     (case create_task init_ai ''hello'' (Raises ''timeout'') ''t1'' 1 1 of
        Inr (tid, s) \<Rightarrow> s
      | Inl e \<Rightarrow> init_ai)"

definition ai_failed :: AutonomousIntelligence where
  "ai_failed = snd (execute_task ai_created ''t1'' (CallRaises ''timeout'') 2 2)"

definition ai_done :: AutonomousIntelligence where
  "ai_done = snd (execute_task ai_created ''t1'' (Content ''hi'') 2 2)"

fun is_exec_error :: "exec_response \<Rightarrow> bool" where
  "is_exec_error (ExecError e) = True"
| "is_exec_error (ExecSuccess tid st p r) = False"

section \<open>chat\_modes.py: sessions and the mode router\<close>

datatype ChatMode = ADAPTIVE | AGENT | CHAT | CUSTOM

fun mode_value :: "ChatMode \<Rightarrow> string" where
  "mode_value ADAPTIVE = ''adaptive''"
| "mode_value AGENT = ''agent''"
| "mode_value CHAT = ''chat''"
| "mode_value CUSTOM = ''custom''"

text \<open>\<open>ChatMode(value)\<close>: the member with that value, or ValueError.\<close>

definition ChatMode_of :: "string \<Rightarrow> py_error + ChatMode" where
  "ChatMode_of v =
     (if v = ''adaptive'' then Inr ADAPTIVE
      else if v = ''agent'' then Inr AGENT
      else if v = ''chat'' then Inr CHAT
      else if v = ''custom'' then Inr CUSTOM
      else Inl ValueError)"

subsection \<open>Strings\<close>

text \<open>\<open>str.lower\<close> on ASCII text, and the substring test \<open>kw in s\<close>.\<close>

definition lower_char :: "char \<Rightarrow> char" where
  "lower_char c =
     (if 65 \<le> (of_char c :: nat) \<and> (of_char c :: nat) \<le> 90
      then char_of ((of_char c :: nat) + 32) else c)"

definition lower :: "string \<Rightarrow> string" where
  "lower s = map lower_char s"

fun contains :: "string \<Rightarrow> string \<Rightarrow> bool" where
  "contains kw [] = (kw = [])"
| "contains kw (c # cs) = (prefix kw (c # cs) \<or> contains kw cs)"

text \<open>The decimal digits of a number, as an f-string prints it.\<close>

fun digits :: "nat \<Rightarrow> nat \<Rightarrow> string" where
  "digits 0 n = []"
| "digits (Suc fuel) n =
     (if n < 10 then [''0123456789'' ! n]
      else digits fuel (n div 10) @ [''0123456789'' ! (n mod 10)])"

definition str_of_nat :: "nat \<Rightarrow> string" where
  "str_of_nat n = digits (Suc n) n"

subsection \<open>Sessions\<close>

text \<open>
  The result of \<open>execute_task_autonomously\<close>, an external collaborator: of its dict the
  router reads the three \<open>final_*\<close> keys.
\<close>

record execution_result =
  final_success :: bool
  final_output :: string
  final_error :: string

record context_entry =
  ce_role :: string
  ce_content :: string
  ce_timestamp :: real
  ce_mode :: string
  ce_execution_result :: "execution_result option"
  ce_task_id :: "string option"

record task_history_entry =
  th_task_id :: string
  th_message :: string
  th_execution_result :: execution_result
  th_timestamp :: real

record preferences =
  auto_execute :: bool
  show_code :: bool
  verbose_output :: bool
  safety_checks :: bool

record ChatSession =
  session_id :: string
  session_user_id :: "string option"
  mode :: ChatMode
  session_created_at :: real
  last_activity :: real
  session_message_count :: int
  session_context :: "context_entry list"
  workspace_id :: "string option"
  task_history :: "task_history_entry list"
  session_preferences :: preferences

record ChatModeManager =
  active_sessions :: "string \<rightharpoonup> ChatSession"
  autonomous_ai :: AutonomousIntelligence

definition init_manager :: ChatModeManager where
  "init_manager = \<lparr>active_sessions = Map.empty, autonomous_ai = init_ai\<rparr>"

subsection \<open>create\_chat\_session\<close>

definition create_chat_session ::
  "ChatModeManager \<Rightarrow> ChatMode \<Rightarrow> string option \<Rightarrow> string \<Rightarrow> real \<Rightarrow> string \<times> ChatModeManager" where
  "create_chat_session mgr m uid new_id now =
     (new_id,
      mgr\<lparr>active_sessions := (active_sessions mgr)(new_id \<mapsto>
        \<lparr>session_id = new_id, session_user_id = uid, mode = m,
         session_created_at = now, last_activity = now, session_message_count = 0,
         session_context = [], workspace_id = None, task_history = [],
         session_preferences = \<lparr>auto_execute = True, show_code = True,
                                  verbose_output = False, safety_checks = True\<rparr>\<rparr>)\<rparr>)"

subsection \<open>\_analyze\_message\_intent\<close>

text \<open>
  The analysis dict: the parsed answer of the model, where any key may be missing, or the
  keyword fallback when the call or the parsing raises. The confidence of the fallback is
  \<open>min(0.8, 0.5 + score * 0.1)\<close>; on the doubles of the source this is 0.5, 0.6, exactly
  0.7 for the scores 0, 1, 2 and 0.8 from 3 on, so the comparison with 0.7 is the one of
  the real numbers.
\<close>

record intent_analysis =
  ia_intent :: "string option"
  ia_recommended_mode :: "string option"
  ia_confidence :: "real option"
  ia_reasoning :: "string option"

definition agent_keywords :: "string list" where
  "agent_keywords =
     [''create'', ''build'', ''make'', ''develop'', ''code'', ''program'', ''deploy'',
      ''website'', ''app'', ''application'', ''api'', ''database'', ''script'',
      ''automate'', ''generate'', ''implement'', ''execute'', ''run'']"

definition chat_keywords :: "string list" where
  "chat_keywords =
     [''what'', ''how'', ''why'', ''explain'', ''tell me'', ''describe'', ''help'',
      ''question'', ''understand'', ''learn'', ''know'', ''think'', ''opinion'']"

definition agent_score :: "string \<Rightarrow> nat" where
  "agent_score message = length (filter (\<lambda>keyword. contains keyword (lower message)) agent_keywords)"

definition chat_score :: "string \<Rightarrow> nat" where
  "chat_score message = length (filter (\<lambda>keyword. contains keyword (lower message)) chat_keywords)"

definition fallback_analysis :: "string \<Rightarrow> intent_analysis" where
  "fallback_analysis message =
     (if agent_score message > chat_score message
      then \<lparr>ia_intent = Some ''Task execution request'',
            ia_recommended_mode = Some ''agent'',
            ia_confidence = Some (min 0.8 (0.5 + real (agent_score message) * 0.1)),
            ia_reasoning = Some (''Message contains '' @ str_of_nat (agent_score message)
                                   @ '' execution-related keywords'')\<rparr>
      else \<lparr>ia_intent = Some ''Conversational inquiry'',
            ia_recommended_mode = Some ''chat'',
            ia_confidence = Some (min 0.8 (0.5 + real (chat_score message) * 0.1)),
            ia_reasoning = Some (''Message contains '' @ str_of_nat (chat_score message)
                                   @ '' conversational keywords'')\<rparr>)"

definition analyze_message_intent :: "string \<Rightarrow> intent_analysis outcome \<Rightarrow> intent_analysis" where
  "analyze_message_intent message llm =
     (case llm of Returns a \<Rightarrow> a | Raises e \<Rightarrow> fallback_analysis message)"

subsection \<open>The answers of the router\<close>

record adaptive_analysis =
  detected_intent :: string
  aa_recommended_mode :: string
  aa_confidence :: real
  aa_reasoning :: string
  mode_switched :: bool
  clarification_needed :: "bool option"

record response =
  r_session_id :: string
  r_mode :: string
  r_message :: string
  r_conversational :: "bool option"
  r_suggestions :: "string list option"
  r_execution_result :: "execution_result option"
  r_task_id :: "string option"
  r_workspace_id :: "string option"
  r_show_code :: "bool option"
  r_auto_executed :: "bool option"
  r_timestamp :: real
  r_adaptive_analysis :: "adaptive_analysis option"

text \<open>
  What one call of \<open>process_message\<close> takes from its environment: the clock (one reading
  stands for all readings of the call), the uuid of a session to create, the outcomes of
  the two model calls of the router, and for agent mode the id of a new workspace, the
  outcome of the task classifier, the uuid of the new task and the result of the
  autonomous execution.
\<close>

record msg_env =
  now :: real
  fresh_session_id :: string
  intent_llm :: "intent_analysis outcome"
  chat_llm :: "string outcome"
  fresh_workspace_id :: string
  task_classifier :: "analysis outcome"
  fresh_task_id :: string
  execution :: execution_result

subsection \<open>Chat mode\<close>

definition generate_chat_response :: "string outcome \<Rightarrow> string" where
  "generate_chat_response llm =
     (case llm of
        Returns c \<Rightarrow> c
      | Raises e \<Rightarrow> ''I apologize, but I encountered an error while processing your message. Please try again.'')"

definition generate_suggestions :: "string \<Rightarrow> string list" where
  "generate_suggestions message =
     take 3
       ((if list_ex (\<lambda>w. contains w (lower message)) [''website'', ''web'', ''site'']
         then [''Would you like me to create a website for you?'',
               ''I can help you build a landing page'',
               ''Need help with web development?''] else [])
        @ (if list_ex (\<lambda>w. contains w (lower message)) [''app'', ''application'', ''mobile'']
           then [''I can help you build an application'',
                 ''Would you like to create a mobile app?'',
                 ''Need assistance with app development?''] else [])
        @ (if list_ex (\<lambda>w. contains w (lower message)) [''code'', ''program'', ''script'']
           then [''I can write and execute code for you'',
                 ''Would you like me to create a script?'',
                 ''Need help with programming?''] else []))"

definition process_chat_mode :: "ChatSession \<Rightarrow> string \<Rightarrow> msg_env \<Rightarrow> response \<times> ChatSession" where
  "process_chat_mode session message env =
     (let ai_response = generate_chat_response (chat_llm env);
          session' = session\<lparr>session_context := session_context session @
                       [\<lparr>ce_role = ''assistant'', ce_content = ai_response,
                         ce_timestamp = now env, ce_mode = ''chat'',
                         ce_execution_result = None, ce_task_id = None\<rparr>]\<rparr>
      in (\<lparr>r_session_id = session_id session', r_mode = ''chat'', r_message = ai_response,
           r_conversational = Some True, r_suggestions = Some (generate_suggestions message),
           r_execution_result = None, r_task_id = None, r_workspace_id = None,
           r_show_code = None, r_auto_executed = None, r_timestamp = now env,
           r_adaptive_analysis = None\<rparr>, session'))"

definition process_custom_mode :: "ChatSession \<Rightarrow> string \<Rightarrow> msg_env \<Rightarrow> response \<times> ChatSession" where
  "process_custom_mode session message env = process_chat_mode session message env"

subsection \<open>Agent mode\<close>

text \<open>
  The text before the output in the success message: the three characters of the source
  literal, as UTF-8 bytes, and a space.
\<close>

definition success_mark :: string where
  "success_mark = [CHR 0xC3, CHR 0xA2, CHR 0xC5, CHR 0x93, CHR 0xE2, CHR 0x80, CHR 0xA6, CHR 0x20]"

definition generate_agent_response :: "execution_result \<Rightarrow> string" where
  "generate_agent_response er =
     (if final_success er
      then success_mark @ ''I've successfully completed your request! '' @ final_output er
      else ''I encountered some challenges while working on your request. '' @ final_error er)"

text \<open>
  \<open>_process_agent_mode\<close>: an exception of \<open>create_task\<close> leaves the function; the workspace
  bound before it stays bound.
\<close>

definition process_agent_mode ::
  "ChatSession \<Rightarrow> AutonomousIntelligence \<Rightarrow> string \<Rightarrow> msg_env
     \<Rightarrow> (py_error + response) \<times> ChatSession \<times> AutonomousIntelligence" where
  "process_agent_mode session ai message env =
     (let session1 =
            (if workspace_id session = None \<or> workspace_id session = Some []
             then session\<lparr>workspace_id := Some (fresh_workspace_id env)\<rparr> else session)
      in case create_task ai message (task_classifier env) (fresh_task_id env) (now env) (now env) of
           Inl e \<Rightarrow> (Inl e, session1, ai)
         | Inr (tid, ai') \<Rightarrow>
             (let er = execution env;
                  msg = generate_agent_response er;
                  session2 = session1\<lparr>
                    session_context := session_context session1 @
                      [\<lparr>ce_role = ''assistant'', ce_content = msg, ce_timestamp = now env,
                        ce_mode = ''agent'', ce_execution_result = Some er,
                        ce_task_id = Some tid\<rparr>],
                    task_history := task_history session1 @
                      [\<lparr>th_task_id = tid, th_message = message, th_execution_result = er,
                        th_timestamp = now env\<rparr>]\<rparr>
              in (Inr \<lparr>r_session_id = session_id session2, r_mode = ''agent'', r_message = msg,
                       r_conversational = None, r_suggestions = None,
                       r_execution_result = Some er, r_task_id = Some tid,
                       r_workspace_id = workspace_id session2,
                       r_show_code = Some (show_code (session_preferences session2)),
                       r_auto_executed = Some True, r_timestamp = now env,
                       r_adaptive_analysis = None\<rparr>, session2, ai')))"

subsection \<open>Adaptive mode\<close>

definition process_adaptive_mode ::
  "ChatSession \<Rightarrow> AutonomousIntelligence \<Rightarrow> string \<Rightarrow> msg_env
     \<Rightarrow> (py_error + response) \<times> ChatSession \<times> AutonomousIntelligence" where
  "process_adaptive_mode session ai message env =
     (let a = analyze_message_intent message (intent_llm env)
      in case ia_recommended_mode a of
           None \<Rightarrow> (Inl KeyError, session, ai)
         | Some recommended \<Rightarrow>
        (case ia_confidence a of
           None \<Rightarrow> (Inl KeyError, session, ai)
         | Some conf \<Rightarrow>
        (case ia_reasoning a of
           None \<Rightarrow> (Inl KeyError, session, ai)
         | Some reasoning \<Rightarrow>
             (if conf > 0.7 then
                (case ChatMode_of recommended of
                   Inl e \<Rightarrow> (Inl e, session, ai)
                 | Inr m \<Rightarrow>
                     (let session1 = session\<lparr>mode := m\<rparr>;
                          (res, session2, ai2) =
                            (if recommended = ''agent''
                             then process_agent_mode session1 ai message env
                             else (case process_chat_mode session1 message env of
                                     (r, s') \<Rightarrow> (Inr r, s', ai)))
                      in case res of
                           Inl e \<Rightarrow> (Inl e, session2, ai2)
                         | Inr r \<Rightarrow>
                             (case ia_intent a of
                                None \<Rightarrow> (Inl KeyError, session2, ai2)
                              | Some intent \<Rightarrow>
                                  (Inr (r\<lparr>r_adaptive_analysis := Some
                                          \<lparr>detected_intent = intent,
                                           aa_recommended_mode = recommended,
                                           aa_confidence = conf, aa_reasoning = reasoning,
                                           mode_switched = True,
                                           clarification_needed = None\<rparr>\<rparr>),
                                   session2, ai2))))
              else
                (case process_chat_mode session message env of
                   (r, session2) \<Rightarrow>
                     (case ia_intent a of
                        None \<Rightarrow> (Inl KeyError, session2, ai)
                      | Some intent \<Rightarrow>
                          (Inr (r\<lparr>r_adaptive_analysis := Some
                                  \<lparr>detected_intent = intent,
                                   aa_recommended_mode = recommended,
                                   aa_confidence = conf, aa_reasoning = reasoning,
                                   mode_switched = False,
                                   clarification_needed = Some True\<rparr>\<rparr>),
                           session2, ai)))))))"

subsection \<open>process\_message\<close>

text \<open>The \<open>if\<close>/\<open>elif\<close> chain of \<open>process_message\<close>; the last branch is CUSTOM.\<close>

definition dispatch_mode ::
  "ChatMode \<Rightarrow> ChatSession \<Rightarrow> AutonomousIntelligence \<Rightarrow> string \<Rightarrow> msg_env
     \<Rightarrow> (py_error + response) \<times> ChatSession \<times> AutonomousIntelligence" where
  "dispatch_mode current_mode session ai message env =
     (if current_mode = ADAPTIVE then process_adaptive_mode session ai message env
      else if current_mode = AGENT then process_agent_mode session ai message env
      else if current_mode = CHAT
        then (case process_chat_mode session message env of (r, s') \<Rightarrow> (Inr r, s', ai))
      else (case process_custom_mode session message env of (r, s') \<Rightarrow> (Inr r, s', ai)))"

text \<open>
  The session object is mutated in place in the source; here the updated session is
  written back to the registry, also when an exception leaves the call.
\<close>

definition process_message ::
  "ChatModeManager \<Rightarrow> string \<Rightarrow> string \<Rightarrow> ChatMode option \<Rightarrow> msg_env
     \<Rightarrow> (py_error + response) \<times> ChatModeManager" where
  "process_message mgr sid message m env =
     (let (sid1, mgr1) =
            (if active_sessions mgr sid = None
             then create_chat_session mgr (case m of None \<Rightarrow> ADAPTIVE | Some m' \<Rightarrow> m') None
                    (fresh_session_id env) (now env)
             else (sid, mgr))
      in case active_sessions mgr1 sid1 of
           None \<Rightarrow> (Inl KeyError, mgr1)
         | Some session0 \<Rightarrow>
             (let session1 = session0\<lparr>last_activity := now env,
                                      session_message_count := session_message_count session0 + 1\<rparr>;
                  session2 = (case m of None \<Rightarrow> session1 | Some m' \<Rightarrow> session1\<lparr>mode := m'\<rparr>);
                  current_mode = mode session2;
                  session3 = session2\<lparr>session_context := session_context session2 @
                               [\<lparr>ce_role = ''user'', ce_content = message,
                                 ce_timestamp = now env, ce_mode = mode_value current_mode,
                                 ce_execution_result = None, ce_task_id = None\<rparr>]\<rparr>;
                  (res, session4, ai') =
                    dispatch_mode current_mode session3 (autonomous_ai mgr1) message env
              in (res, mgr1\<lparr>active_sessions := (active_sessions mgr1)(sid1 \<mapsto> session4),
                           autonomous_ai := ai'\<rparr>)))"

subsection \<open>Scenarios over the router\<close>

text \<open>An environment in which every model call fails, and a fresh adaptive session.\<close>

definition offline_env :: msg_env where
  "offline_env =
     \<lparr>now = 1, fresh_session_id = ''s1'', intent_llm = Raises ''down'',
      chat_llm = Raises ''down'', fresh_workspace_id = ''w1'',
      task_classifier = Raises ''down'', fresh_task_id = ''t1'',
      execution = \<lparr>final_success = True, final_output = ''done'', final_error = ''''\<rparr>\<rparr>"

definition adaptive_session :: ChatSession where
  "adaptive_session =
     \<lparr>session_id = ''s1'', session_user_id = None, mode = ADAPTIVE,
      session_created_at = 0, last_activity = 0, session_message_count = 0,
      session_context = [], workspace_id = None, task_history = [],
      session_preferences = \<lparr>auto_execute = True, show_code = True,
                               verbose_output = False, safety_checks = True\<rparr>\<rparr>"

section \<open>Basic facts\<close>

lemma new_chat_message_simps [simp]:
  "message_id (new_chat_message mid uid uname body mtype cid t rto) = mid"
  "msg_user_id (new_chat_message mid uid uname body mtype cid t rto) = uid"
  "msg_username (new_chat_message mid uid uname body mtype cid t rto) = uname"
  "content (new_chat_message mid uid uname body mtype cid t rto) = body"
  "timestamp (new_chat_message mid uid uname body mtype cid t rto) = t"
  "reactions (new_chat_message mid uid uname body mtype cid t rto) = Some []"
  by (simp_all add: new_chat_message_def)

section \<open>The rate limiter\<close>

lemma check_rate_limit_eq:
  assumes "users s uid = Some user" and "user_message_history s uid = Some hist"
  shows "check_rate_limit s uid body t =
     (if length (filter (\<lambda>m. t - m < 60) hist) < messages_per_minute (rate_limits (role user))
         \<and> length body \<le> characters_per_message (rate_limits (role user))
      then Inr (True, s\<lparr>user_message_history :=
                          (user_message_history s)(uid \<mapsto> filter (\<lambda>m. t - m < 60) hist @ [t])\<rparr>)
      else Inr (False, s\<lparr>user_message_history :=
                          (user_message_history s)(uid \<mapsto> filter (\<lambda>m. t - m < 60) hist)\<rparr>))"
  using assms by (auto simp: check_rate_limit_def Let_def)

lemma check_all_append:
  "check_all s uid (xs @ ys) =
     (case check_all s uid xs of
        Inl e \<Rightarrow> Inl e
      | Inr (oks, s1) \<Rightarrow>
         (case check_all s1 uid ys of Inl e \<Rightarrow> Inl e | Inr (oks', s2) \<Rightarrow> Inr (oks @ oks', s2)))"
  by (induction xs arbitrary: s) (auto split: sum.splits prod.splits)

lemma check_all_accept:
  assumes "users s uid = Some user" and "user_message_history s uid = Some hist"
    and "\<forall>r\<in>set reqs. length (fst r) \<le> characters_per_message (rate_limits (role user))"
    and "\<forall>a\<in>set (map snd reqs). \<forall>b\<in>set hist \<union> set (map snd reqs). a - b < 60"
    and "length hist + length reqs \<le> messages_per_minute (rate_limits (role user))"
  shows "check_all s uid reqs =
           Inr (replicate (length reqs) True,
                s\<lparr>user_message_history := (user_message_history s)(uid \<mapsto> hist @ map snd reqs)\<rparr>)"
  using assms
proof (induction reqs arbitrary: s hist)
  case Nil
  then show ?case by (simp add: map_upd_triv)
next
  case (Cons r reqs)
  obtain body t where r: "r = (body, t)" by (cases r)
  have keep: "filter (\<lambda>m. t - m < 60) hist = hist"
    using Cons.prems(4) by (auto simp: r filter_id_conv)
  let ?s1 = "s\<lparr>user_message_history := (user_message_history s)(uid \<mapsto> hist @ [t])\<rparr>"
  have step: "check_rate_limit s uid body t = Inr (True, ?s1)"
    using Cons.prems(3,5) by (simp add: check_rate_limit_eq[OF Cons.prems(1,2)] keep r)
  have "check_all ?s1 uid reqs =
          Inr (replicate (length reqs) True,
               ?s1\<lparr>user_message_history := (user_message_history ?s1)(uid \<mapsto> (hist @ [t]) @ map snd reqs)\<rparr>)"
    using Cons.prems by (intro Cons.IH) (auto simp: r)
  then have ih: "check_all ?s1 uid reqs =
          Inr (replicate (length reqs) True,
               s\<lparr>user_message_history := (user_message_history s)(uid \<mapsto> hist @ t # map snd reqs)\<rparr>)"
    by simp
  show ?case unfolding r by (simp add: step ih) (simp add: fun_upd_def)
qed

lemma mpm_pos: "0 < messages_per_minute (rate_limits r)"
  by (cases r) simp_all

text \<open>
  Claim C2. A user whose window is empty makes \<open>messagesPerMinute(R)\<close> attempts \<open>reqs\<close>, one
  more attempt \<open>extra\<close> and a later attempt \<open>later\<close>, every message within the character
  limit of the role \<open>R\<close>. The first attempts and \<open>extra\<close> lie in one window (every attempt is
  less than 60 time units after every recorded one); at \<open>later\<close> some recorded timestamp
  \<open>m\<close> is 60 or more units old. Then exactly the attempts of \<open>reqs\<close> are accepted, \<open>extra\<close>
  is rejected and \<open>later\<close> is accepted. Each call keeps the timestamps \<open>m\<close> with
  \<open>t - m < 60\<close> (a timestamp aged exactly 60 is dropped), rejects when as many as the
  role's \<open>messages_per_minute\<close> remain or when the message is longer than the role's
  \<open>characters_per_message\<close>, and otherwise appends the clock reading and accepts.
\<close>

theorem rate_limit_window:
  assumes user: "users s uid = Some user"
    and empty: "user_message_history s uid = Some []"
    and n: "length reqs = messages_per_minute (rate_limits (role user))"
    and bodies: "\<forall>r\<in>set (reqs @ [extra, later]).
                   length (fst r) \<le> characters_per_message (rate_limits (role user))"
    and window: "\<forall>a\<in>set (map snd (reqs @ [extra])). \<forall>b\<in>set (map snd reqs). a - b < 60"
    and slide: "m \<in> set (map snd reqs)" "60 \<le> snd later - m"
  shows "(\<exists>s'. check_all s uid (reqs @ [extra, later]) =
                 Inr (replicate (length reqs) True @ [False, True], s'))
       \<and> (\<forall>s0 hist body t. users s0 uid = Some user \<and> user_message_history s0 uid = Some hist \<longrightarrow>
             check_rate_limit s0 uid body t =
               (if length (filter (\<lambda>m. t - m < 60) hist) < messages_per_minute (rate_limits (role user))
                   \<and> length body \<le> characters_per_message (rate_limits (role user))
                then Inr (True, s0\<lparr>user_message_history :=
                     (user_message_history s0)(uid \<mapsto> filter (\<lambda>m. t - m < 60) hist @ [t])\<rparr>)
                else Inr (False, s0\<lparr>user_message_history :=
                     (user_message_history s0)(uid \<mapsto> filter (\<lambda>m. t - m < 60) hist)\<rparr>)))"
    (is "?A \<and> ?B")
proof -
  let ?lim = "rate_limits (role user)"
  let ?s1 = "s\<lparr>user_message_history := (user_message_history s)(uid \<mapsto> map snd reqs)\<rparr>"
  have first: "check_all s uid reqs = Inr (replicate (length reqs) True, ?s1)"
    using check_all_accept[OF user empty, of reqs] bodies window n by simp
  have u1: "users ?s1 uid = Some user" and h1: "user_message_history ?s1 uid = Some (map snd reqs)"
    using user by simp_all
  have keep: "filter (\<lambda>m. snd extra - m < 60) (map snd reqs) = map snd reqs"
    using window by (auto simp: filter_id_conv)
  have second: "check_rate_limit ?s1 uid (fst extra) (snd extra) = Inr (False, ?s1)"
    using n by (simp add: check_rate_limit_eq[OF u1 h1] keep)
  have "length (filter (\<lambda>x. snd later - x < 60) (map snd reqs)) < length (map snd reqs)"
    using slide by (intro length_filter_less[of m]) auto
  then have third: "\<exists>s'. check_rate_limit ?s1 uid (fst later) (snd later) = Inr (True, s')"
    using n bodies by (simp add: check_rate_limit_eq[OF u1 h1])
  then obtain s' where s': "check_rate_limit ?s1 uid (fst later) (snd later) = Inr (True, s')" ..
  have "check_all ?s1 uid [extra, later] = Inr ([False, True], s')"
    using second s' by (cases extra; cases later) simp
  then have A: ?A
    by (simp add: check_all_append first)
  have B: ?B
    using check_rate_limit_eq by blast
  show ?thesis using A B by (rule conjI)
qed

lemma guest_chat_user:
  "users guest_chat ''u1'' = Some \<lparr>user_id = ''u1'', username = ''alice'', display_name = ''Alice'',
      role = GUEST, avatar_url = '''', status = ''online'', joined_at = 0, last_seen = 0,
      message_count = 0, reputation = 0\<rparr>"
  "user_message_history guest_chat ''u1'' = Some []"
  by (simp_all add: guest_chat_def register_user_def Let_def)

theorem rate_limit_window_witness:
  "\<exists>s'. check_all guest_chat ''u1''
          [(''a'', 0), (''b'', 1), (''c'', 2), (''d'', 3), (''e'', 4), (''f'', 5), (''g'', 60)] =
        Inr ([True, True, True, True, True, False, True], s')"
  using rate_limit_window[OF guest_chat_user,
          of "[(''a'', 0), (''b'', 1), (''c'', 2), (''d'', 3), (''e'', 4)]" "(''f'', 5)" "(''g'', 60)" 0]
  by (simp add: numeral_eq_Suc)

subsection \<open>Rejections and the stored window\<close>

lemma guest_chat_sent_history:
  "users guest_chat_sent ''u1'' = users guest_chat ''u1''"
  "user_message_history guest_chat_sent ''u1'' = Some [0]"
  by (simp_all add: guest_chat_sent_def check_rate_limit_eq[OF guest_chat_user])

text \<open>
  Claim C8, as amended. A rejected call of \<open>_check_rate_limit\<close> records no timestamp and
  changes nothing but the caller's own window, which is left pruned of the timestamps aged
  60 or more; when no timestamp had expired the state is unchanged.
\<close>

theorem check_rate_limit_reject_frame:
  assumes "check_rate_limit s uid body t = Inr (False, s')"
  shows "\<exists>hist. user_message_history s uid = Some hist
           \<and> s' = s\<lparr>user_message_history :=
                      (user_message_history s)(uid \<mapsto> filter (\<lambda>m. t - m < 60) hist)\<rparr>
           \<and> ((\<forall>m\<in>set hist. t - m < 60) \<longrightarrow> s' = s)"
proof -
  obtain user hist where u: "users s uid = Some user" and h: "user_message_history s uid = Some hist"
    using assms by (auto simp: check_rate_limit_def split: option.splits)
  have eq: "s' = s\<lparr>user_message_history :=
                      (user_message_history s)(uid \<mapsto> filter (\<lambda>m. t - m < 60) hist)\<rparr>"
    using assms by (simp add: check_rate_limit_eq[OF u h] split: if_splits)
  have "s' = s" if "\<forall>m\<in>set hist. t - m < 60"
  proof -
    have "filter (\<lambda>m. t - m < 60) hist = hist" using that by (simp add: filter_id_conv)
    then show ?thesis using eq h by (simp add: map_upd_triv)
  qed
  then show ?thesis using h eq by blast
qed

theorem check_rate_limit_reject_frame_witness:
  "user_message_history guest_chat_sent ''u1'' = Some [0]
   \<and> check_rate_limit guest_chat_sent ''u1'' (replicate 501 CHR ''x'') 30 = Inr (False, guest_chat_sent)"
proof -
  have r: "check_rate_limit guest_chat_sent ''u1'' (replicate 501 CHR ''x'') 30 =
        Inr (False, guest_chat_sent\<lparr>user_message_history :=
                      (user_message_history guest_chat_sent)(''u1'' \<mapsto> [0])\<rparr>)"
    using guest_chat_user(1)
    by (simp add: check_rate_limit_eq[OF guest_chat_sent_history(1)[unfolded guest_chat_user(1)] guest_chat_sent_history(2)])
  show ?thesis
    using check_rate_limit_reject_frame[OF r] guest_chat_sent_history(2) r by simp
qed

text \<open>
  Claim C8 as stated fails: a guest whose window holds the timestamp 0 sends an over-long
  message at time 100; the call is rejected and the window is emptied.
\<close>

theorem check_rate_limit_reject_prunes:
  "user_message_history guest_chat_sent ''u1'' = Some [0]
   \<and> check_rate_limit guest_chat_sent ''u1'' (replicate 501 CHR ''x'') 100 =
       Inr (False, guest_chat_sent\<lparr>user_message_history :=
                      (user_message_history guest_chat_sent)(''u1'' \<mapsto> [])\<rparr>)
   \<and> user_message_history (guest_chat_sent\<lparr>user_message_history :=
                      (user_message_history guest_chat_sent)(''u1'' \<mapsto> [])\<rparr>) ''u1'' 
       \<noteq> user_message_history guest_chat_sent ''u1''"
  using guest_chat_user(1)
  by (simp add: check_rate_limit_eq[OF guest_chat_sent_history(1)[unfolded guest_chat_user(1)] guest_chat_sent_history(2)]
        guest_chat_sent_history(2))

text \<open>
  The pruning done by a rejected call is what any later call would do itself: pruning at a
  later time gives the same list whether or not the list was pruned before.
\<close>

lemma prune_unobservable:
  "t \<le> t' \<Longrightarrow>
     filter (\<lambda>m. t' - m < 60) (filter (\<lambda>m. t - m < 60) hist) =
     filter (\<lambda>m. t' - m < (60::real)) hist"
  by (induction hist) auto

section \<open>Roles and channel permissions\<close>

lemma list_index_rank: "list_index role_hierarchy r = Some (spec_role_rank r)"
  by (cases r) (simp_all add: role_hierarchy_def)

lemma has_role_or_higher_rank:
  "has_role_or_higher u r = Inr (spec_role_rank r \<le> spec_role_rank u)"
  by (simp add: has_role_or_higher_def list_index_rank)

lemma can_send_read_only:
  "channel_type channel = ''read_only'' \<Longrightarrow>
     can_user_send_message user channel = Inr (spec_role_rank MODERATOR \<le> spec_role_rank (role user))"
  by (cases "role user") (simp_all add: can_user_send_message_def)

lemma can_join_restricted:
  "channel_type channel = ''restricted'' \<Longrightarrow>
     can_user_join_channel user channel =
       Inr (spec_role_rank (case required_role channel of None \<Rightarrow> USER | Some r \<Rightarrow> r)
              \<le> spec_role_rank (role user))"
  by (simp add: can_user_join_channel_def has_role_or_higher_rank)

lemma can_join_other:
  "channel_type channel \<noteq> ''restricted'' \<Longrightarrow> can_user_join_channel user channel = Inr True"
  by (simp add: can_user_join_channel_def)

lemma check_rate_limit_messages:
  "check_rate_limit s uid body t = Inr (ok, s1) \<Longrightarrow>
     messages s1 = messages s \<and> users s1 = users s \<and> channels s1 = channels s
     \<and> active_connections s1 = active_connections s"
  by (auto simp: check_rate_limit_def Let_def split: option.splits if_splits)

text \<open>
  Claim C5. For a registered user and a channel of the system: on a read-only channel
  \<open>send_message\<close> answers "Permission denied" exactly when the user's role is below
  MODERATOR (then nothing changes), a MODERATOR or ADMIN whom the rate limiter accepts has
  the message sent, and \<open>join_channel\<close> succeeds for every role; on a restricted channel
  \<open>join_channel\<close> succeeds exactly when the user's role is at least the channel's required
  role (USER when the channel names none) in the order
  GUEST < USER < CREATOR < FOUNDER < MODERATOR < ADMIN, and answers "Permission denied"
  otherwise.
\<close>

theorem channel_permissions:
  assumes user: "users s uid = Some user"
    and chan: "map_of (channels s) cid = Some channel"
    and conns: "active_connections s cid = Some conns"
    and msgs: "map_of (messages s) cid = Some msgs"
  shows "(channel_type channel = ''read_only'' \<longrightarrow>
            ((\<exists>s'. send_message s uid cid body mtype rto env =
                     Inr (SendError ''Permission denied'', s'))
               \<longleftrightarrow> spec_role_rank (role user) < spec_role_rank MODERATOR)
          \<and> (spec_role_rank (role user) < spec_role_rank MODERATOR \<longrightarrow>
                send_message s uid cid body mtype rto env =
                  Inr (SendError ''Permission denied'', s))
          \<and> (\<forall>s1. spec_role_rank MODERATOR \<le> spec_role_rank (role user)
                   \<and> check_rate_limit s uid body (t_check env) = Inr (True, s1) \<longrightarrow>
                (\<exists>s'. send_message s uid cid body mtype rto env =
                        Inr (Sent (new_uuid env) (t_msg env), s')))
          \<and> (\<exists>us s'. join_channel s uid cid ws = Inr (Joined channel (last_n 50 msgs) us, s')))
       \<and> (channel_type channel = ''restricted'' \<longrightarrow>
            ((\<exists>us s'. join_channel s uid cid ws = Inr (Joined channel (last_n 50 msgs) us, s'))
               \<longleftrightarrow> spec_role_rank (case required_role channel of None \<Rightarrow> USER | Some r \<Rightarrow> r)
                     \<le> spec_role_rank (role user))
          \<and> (spec_role_rank (role user)
                 < spec_role_rank (case required_role channel of None \<Rightarrow> USER | Some r \<Rightarrow> r) \<longrightarrow>
                join_channel s uid cid ws = Inr (JoinError ''Permission denied'', s)))"
    (is "(?ro \<longrightarrow> ?A) \<and> (?re \<longrightarrow> ?B)")
proof -
  have first: ?A if ro: ?ro
  proof -
  have cs: "can_user_send_message user channel =
              Inr (spec_role_rank MODERATOR \<le> spec_role_rank (role user))"
    using ro by (rule can_send_read_only)
  have denied: "send_message s uid cid body mtype rto env = Inr (SendError ''Permission denied'', s)"
    if "spec_role_rank (role user) < spec_role_rank MODERATOR"
    using that by (simp add: send_message_def user chan cs)
  have not_denied: "send_message s uid cid body mtype rto env \<noteq> Inr (SendError ''Permission denied'', s')"
    if "spec_role_rank MODERATOR \<le> spec_role_rank (role user)" for s'
    using that
    by (simp add: send_message_def user chan cs Let_def split: sum.splits prod.splits bool.splits option.splits)
  have sent: "\<exists>s'. send_message s uid cid body mtype rto env = Inr (Sent (new_uuid env) (t_msg env), s')"
    if "spec_role_rank MODERATOR \<le> spec_role_rank (role user)"
      and "check_rate_limit s uid body (t_check env) = Inr (True, s1)" for s1
    using that check_rate_limit_messages[OF that(2)] msgs
    by (simp add: send_message_def user chan cs Let_def)
  have join: "\<exists>us s'. join_channel s uid cid ws = Inr (Joined channel (last_n 50 msgs) us, s')"
    using ro by (simp add: join_channel_def user chan conns msgs can_join_other Let_def)
    have iff: "(\<exists>s'. send_message s uid cid body mtype rto env =
                     Inr (SendError ''Permission denied'', s'))
               \<longleftrightarrow> spec_role_rank (role user) < spec_role_rank MODERATOR"
      using denied not_denied by (metis not_le)
    show ?A
      using iff denied sent join by blast
  qed
  have second: ?B if re: ?re
  proof -
  let ?req = "case required_role channel of None \<Rightarrow> USER | Some r \<Rightarrow> r"
  have cj: "can_user_join_channel user channel = Inr (spec_role_rank ?req \<le> spec_role_rank (role user))"
    using re by (rule can_join_restricted)
  have ok: "\<exists>us s'. join_channel s uid cid ws = Inr (Joined channel (last_n 50 msgs) us, s')"
    if "spec_role_rank ?req \<le> spec_role_rank (role user)"
    using that by (simp add: join_channel_def user chan conns msgs cj Let_def)
  have no: "join_channel s uid cid ws = Inr (JoinError ''Permission denied'', s)"
    if "spec_role_rank (role user) < spec_role_rank ?req"
    using that by (simp add: join_channel_def user chan cj)
    have iff: "(\<exists>us s'. join_channel s uid cid ws = Inr (Joined channel (last_n 50 msgs) us, s'))
               \<longleftrightarrow> spec_role_rank ?req \<le> spec_role_rank (role user)"
      using ok no by (metis Inr_inject join_response.distinct(1) not_le prod.inject)
    show ?B
      using iff no by blast
  qed
  show ?thesis using first second by blast
qed

lemma init_chat_channels:
  "channels (init_chat t) = map (\<lambda>c. (channel_id c, c)) (default_channels t)"
  "messages (init_chat t) = map (\<lambda>c. (channel_id c, [])) (default_channels t)"
  "active_connections (init_chat t) =
     [''general'' \<mapsto> {}, ''creators'' \<mapsto> {}, ''founders'' \<mapsto> {}, ''support'' \<mapsto> {},
      ''announcements'' \<mapsto> {}]"
  "users (init_chat t) = Map.empty"
  "user_message_history (init_chat t) = Map.empty"
  by (simp_all add: init_chat_def initialize_default_channels_def default_channels_def
        add_default_channel_def)

lemma admin_chat_users:
  "users admin_chat ''u1'' = Some \<lparr>user_id = ''u1'', username = ''alice'', display_name = ''Alice'',
      role = GUEST, avatar_url = '''', status = ''online'', joined_at = 0, last_seen = 0,
      message_count = 0, reputation = 0\<rparr>"
  "users admin_chat ''u2'' = Some \<lparr>user_id = ''u2'', username = ''root'', display_name = ''Root'',
      role = ADMIN, avatar_url = '''', status = ''online'', joined_at = 0, last_seen = 0,
      message_count = 0, reputation = 0\<rparr>"
  "user_message_history admin_chat ''u2'' = Some []"
  by (simp_all add: admin_chat_def guest_chat_def register_user_def Let_def)

lemma admin_chat_channels:
  "map_of (channels admin_chat) ''announcements'' = Some (default_channels 0 ! 4)"
  "map_of (channels admin_chat) ''founders'' = Some (default_channels 0 ! 2)"
  "map_of (messages admin_chat) ''announcements'' = Some []"
  "map_of (messages admin_chat) ''founders'' = Some []"
  "active_connections admin_chat ''announcements'' = Some {}"
  "active_connections admin_chat ''founders'' = Some {}"
  by (simp_all add: admin_chat_def guest_chat_def register_user_def Let_def init_chat_channels
        default_channels_def)

lemma default_channel_types:
  "channel_type (default_channels t ! 4) = ''read_only''"
  "channel_type (default_channels t ! 2) = ''restricted''"
  "required_role (default_channels t ! 2) = Some FOUNDER"
  by (simp_all add: default_channels_def)

theorem channel_permissions_witness:
  "send_message admin_chat ''u1'' ''announcements'' ''hi'' TEXT None
       \<lparr>new_uuid = ''m1'', t_check = 1, t_msg = 2, t_seen = 3\<rparr>
     = Inr (SendError ''Permission denied'', admin_chat)
   \<and> (\<exists>s'. send_message admin_chat ''u2'' ''announcements'' ''hi'' TEXT None
              \<lparr>new_uuid = ''m1'', t_check = 1, t_msg = 2, t_seen = 3\<rparr>
            = Inr (Sent ''m1'' 2, s'))
   \<and> (\<exists>us s'. join_channel admin_chat ''u1'' ''announcements'' 7 =
                 Inr (Joined (default_channels 0 ! 4) [] us, s'))
   \<and> join_channel admin_chat ''u1'' ''founders'' 7 = Inr (JoinError ''Permission denied'', admin_chat)
   \<and> (\<exists>us s'. join_channel admin_chat ''u2'' ''founders'' 7 =
                 Inr (Joined (default_channels 0 ! 2) [] us, s'))"
proof -
  let ?env = "\<lparr>new_uuid = ''m1'', t_check = 1, t_msg = 2, t_seen = 3\<rparr>"
  have ok: "\<exists>s1. check_rate_limit admin_chat ''u2'' ''hi'' (t_check ?env) = Inr (True, s1)"
    by (simp add: check_rate_limit_eq[OF admin_chat_users(2,3)])
  note a1 = channel_permissions[OF admin_chat_users(1) admin_chat_channels(1,5,3),
              of "''hi''" TEXT None ?env 7]
  note a2 = channel_permissions[OF admin_chat_users(2) admin_chat_channels(1,5,3),
              of "''hi''" TEXT None ?env 7]
  note f1 = channel_permissions[OF admin_chat_users(1) admin_chat_channels(2,6,4),
              of "''hi''" TEXT None ?env 7]
  note f2 = channel_permissions[OF admin_chat_users(2) admin_chat_channels(2,6,4),
              of "''hi''" TEXT None ?env 7]
  show ?thesis
    using a1 a2 f1 f2 ok by (simp add: default_channel_types last_n_def)
qed

section \<open>Registration\<close>

lemma guest_chat_channels:
  "channels guest_chat = map (\<lambda>c. (channel_id c, c)) (default_channels 0)"
  "messages guest_chat = map (\<lambda>c. (channel_id c, [])) (default_channels 0)"
  by (simp_all add: guest_chat_def register_user_def Let_def init_chat_channels)

lemma guest_chat_posted_eval:
  "send_message guest_chat ''u1'' ''general'' ''hello'' TEXT None
             \<lparr>new_uuid = ''m1'', t_check = 1, t_msg = 2, t_seen = 3\<rparr> = Inr (Sent ''m1'' 2, guest_chat_posted)"
  "users guest_chat_posted ''u1'' = Some \<lparr>user_id = ''u1'', username = ''alice'', display_name = ''Alice'',
      role = GUEST, avatar_url = '''', status = ''online'', joined_at = 0, last_seen = 3,
      message_count = 1, reputation = 0\<rparr>"
  "user_message_history guest_chat_posted ''u1'' = Some [1]"
  "messages guest_chat_posted = [(''general'', [message_m1]), (''creators'', []), (''founders'', []),
      (''support'', []), (''announcements'', [])]"
  by (simp_all add: guest_chat_posted_def send_message_def guest_chat_user guest_chat_channels
        default_channels_def can_user_send_message_def check_rate_limit_eq[OF guest_chat_user]
        Let_def max_messages_per_channel_def message_m1_def new_chat_message_def)

text \<open>
  Claim C10. Registering a user id that is already registered replaces the stored user
  record by a fresh one (the new name and role, message count 0, reputation 0) and resets
  the user's rate-limit history to the empty list, whatever had been accumulated.
\<close>

theorem register_user_resets:
  assumes "users s uid = Some old" and "user_message_history s uid = Some hist"
  shows "users (snd (register_user s uid uname dname r tj ts)) uid =
           Some \<lparr>user_id = uid, username = uname, display_name = dname, role = r,
                 avatar_url = '''', status = ''online'', joined_at = tj, last_seen = ts,
                 message_count = 0, reputation = 0\<rparr>
       \<and> user_message_history (snd (register_user s uid uname dname r tj ts)) uid = Some []"
  by (simp add: register_user_def Let_def)

theorem register_user_resets_witness:
  "users guest_chat_posted ''u1'' = Some \<lparr>user_id = ''u1'', username = ''alice'', display_name = ''Alice'',
      role = GUEST, avatar_url = '''', status = ''online'', joined_at = 0, last_seen = 3,
      message_count = 1, reputation = 0\<rparr>
   \<and> user_message_history guest_chat_posted ''u1'' = Some [1]
   \<and> users (snd (register_user guest_chat_posted ''u1'' ''al'' ''Al'' CREATOR 8 9)) ''u1'' =
       Some \<lparr>user_id = ''u1'', username = ''al'', display_name = ''Al'',
      role = CREATOR, avatar_url = '''', status = ''online'', joined_at = 8, last_seen = 9,
      message_count = 0, reputation = 0\<rparr>
   \<and> user_message_history (snd (register_user guest_chat_posted ''u1'' ''al'' ''Al'' CREATOR 8 9)) ''u1''
       = Some []"
  using register_user_resets[OF guest_chat_posted_eval(2,3), of "''al''" "''Al''" CREATOR 8 9]
    guest_chat_posted_eval(2,3)
  by simp

section \<open>Reactions\<close>

lemma find_append_eq:
  "find P (xs @ ys) = (case find P xs of None \<Rightarrow> find P ys | Some x \<Rightarrow> Some x)"
  by (induction xs) auto

lemma find_update_first:
  assumes "\<And>x. P (f x) = P x"
  shows "find P (update_first P f xs) = map_option f (find P xs)"
  using assms by (induction xs) auto

lemma update_first_fixed:
  "find P xs = Some m \<Longrightarrow> f m = m \<Longrightarrow> update_first P f xs = xs"
  by (induction xs) (auto split: if_splits)

lemma find_update_message:
  assumes "\<And>x. message_id (f x) = message_id x"
  shows "find (\<lambda>m. message_id m = mid) (concat (map snd (update_message mid f al))) =
           map_option f (find (\<lambda>m. message_id m = mid) (concat (map snd al)))"
proof (induction al)
  case Nil
  then show ?case by simp
next
  case (Cons a al)
  obtain c ms where a: "a = (c, ms)" by (cases a)
  have P: "\<And>x. (message_id (f x) = mid) = (message_id x = mid)" using assms by simp
  show ?case
    using Cons.IH find_update_first[of "\<lambda>m. message_id m = mid" f ms, OF P]
    by (cases "find (\<lambda>m. message_id m = mid) ms") (simp_all add: a find_append_eq)
qed

lemma update_message_fixed:
  "find (\<lambda>m. message_id m = mid) (concat (map snd al)) = Some m \<Longrightarrow> f m = m \<Longrightarrow>
     update_message mid f al = al"
proof (induction al)
  case Nil
  then show ?case by simp
next
  case (Cons a al)
  obtain c ms where a: "a = (c, ms)" by (cases a)
  show ?case
    using Cons
    by (cases "find (\<lambda>m. message_id m = mid) ms")
       (auto simp: a find_append_eq update_first_fixed)
qed

lemma react_message_id: "message_id (react uid emoji m) = message_id m"
  by (simp add: react_def Let_def)

lemma reaction_users_react:
  "reaction_users (react uid emoji m) emoji =
     (if uid \<in> set (reaction_users m emoji) then reaction_users m emoji
      else reaction_users m emoji @ [uid])"
  by (auto simp: react_def reaction_users_def Let_def update_conv' split: option.splits)

lemma reaction_users_react_other:
  "e \<noteq> emoji \<Longrightarrow> reaction_users (react uid emoji m) e = reaction_users m e"
  by (auto simp: react_def reaction_users_def Let_def update_conv' split: option.splits)

lemma react_idem: "react uid emoji (react uid emoji m) = react uid emoji m"
  by (auto simp: react_def Let_def update_conv' split: option.splits)

lemma count_list_append1:
  "count_list (xs @ [u]) u = Suc (count_list xs u)"
  by (induction xs) auto

text \<open>
  Claim C7. \<open>add_reaction\<close> answers "Message not found" and changes nothing when no message
  has the id. For an existing message, after the call the user is among the users of the
  emoji on that message, exactly once when the user was there at most once before, and a
  second call with the same user, message and emoji succeeds and leaves the state as it is.
\<close>

theorem add_reaction_idempotent:
  "(find_message s mid = None \<longrightarrow>
      add_reaction s uid mid emoji = (ReactError ''Message not found'', s))
   \<and> (\<forall>m. find_message s mid = Some m \<longrightarrow>
        fst (add_reaction s uid mid emoji) = ReactionAdded mid emoji
      \<and> find_message (snd (add_reaction s uid mid emoji)) mid = Some (react uid emoji m)
      \<and> uid \<in> set (reaction_users (react uid emoji m) emoji)
      \<and> (count_list (reaction_users m emoji) uid \<le> 1 \<longrightarrow>
           count_list (reaction_users (react uid emoji m) emoji) uid = 1)
      \<and> add_reaction (snd (add_reaction s uid mid emoji)) uid mid emoji =
           (ReactionAdded mid emoji, snd (add_reaction s uid mid emoji)))"
proof (intro conjI allI impI)
  assume "find_message s mid = None"
  then show "add_reaction s uid mid emoji = (ReactError ''Message not found'', s)"
    by (simp add: add_reaction_def)
next
  fix m assume m: "find_message s mid = Some m"
  let ?s1 = "s\<lparr>messages := update_message mid (react uid emoji) (messages s)\<rparr>"
  have r: "add_reaction s uid mid emoji = (ReactionAdded mid emoji, ?s1)"
    using m by (simp add: add_reaction_def)
  show "fst (add_reaction s uid mid emoji) = ReactionAdded mid emoji"
    by (simp add: r)
  have f1: "find_message ?s1 mid = Some (react uid emoji m)"
    using m find_update_message[of "react uid emoji" mid "messages s"]
    by (simp add: find_message_def react_message_id)
  show "find_message (snd (add_reaction s uid mid emoji)) mid = Some (react uid emoji m)"
    by (simp add: r f1)
  show "uid \<in> set (reaction_users (react uid emoji m) emoji)"
    by (simp add: reaction_users_react)
  have "update_message mid (react uid emoji) (messages ?s1) = messages ?s1"
    using f1 by (intro update_message_fixed[of mid _ "react uid emoji m"])
                (simp_all add: find_message_def react_idem)
  then have "add_reaction ?s1 uid mid emoji = (ReactionAdded mid emoji, ?s1)"
    using f1 by (simp add: add_reaction_def)
  then show "add_reaction (snd (add_reaction s uid mid emoji)) uid mid emoji =
           (ReactionAdded mid emoji, snd (add_reaction s uid mid emoji))"
    by (simp add: r)
next
  fix m assume le: "count_list (reaction_users m emoji) uid \<le> 1"
  show "count_list (reaction_users (react uid emoji m) emoji) uid = 1"
  proof (cases "uid \<in> set (reaction_users m emoji)")
    case True
    then have "count_list (reaction_users m emoji) uid \<noteq> 0"
      by (simp add: count_list_0_iff)
    with le True show ?thesis by (simp add: reaction_users_react)
  next
    case False
    then have "count_list (reaction_users m emoji) uid = 0"
      by (simp add: count_list_0_iff)
    with False show ?thesis by (simp add: reaction_users_react count_list_append1)
  qed
qed

lemma guest_chat_posted_find: "find_message guest_chat_posted ''m1'' = Some message_m1"
  by (simp add: find_message_def guest_chat_posted_eval(4) message_m1_def)

theorem add_reaction_idempotent_witness:
  "find_message guest_chat_posted ''m1'' = Some message_m1
   \<and> reaction_users message_m1 ''+1'' = []
   \<and> reaction_users (react ''u1'' ''+1'' message_m1) ''+1'' = [''u1'']
   \<and> find_message (snd (add_reaction guest_chat_posted ''u1'' ''m1'' ''+1'')) ''m1'' =
        Some (react ''u1'' ''+1'' message_m1)
   \<and> add_reaction (snd (add_reaction guest_chat_posted ''u1'' ''m1'' ''+1'')) ''u1'' ''m1'' ''+1'' =
        (ReactionAdded ''m1'' ''+1'', snd (add_reaction guest_chat_posted ''u1'' ''m1'' ''+1''))
   \<and> find_message guest_chat_posted ''zz'' = None
   \<and> add_reaction guest_chat_posted ''u1'' ''zz'' ''+1'' =
        (ReactError ''Message not found'', guest_chat_posted)"
proof -
  have none: "find_message guest_chat_posted ''zz'' = None"
    by (simp add: find_message_def guest_chat_posted_eval(4) message_m1_def)
  have users0: "reaction_users message_m1 ''+1'' = []"
    by (simp add: reaction_users_def message_m1_def)
  have users1: "reaction_users (react ''u1'' ''+1'' message_m1) ''+1'' = [''u1'']"
    by (simp add: reaction_users_react users0)
  show ?thesis
    using add_reaction_idempotent[of guest_chat_posted "''m1''" "''u1''" "''+1''"]
      add_reaction_idempotent[of guest_chat_posted "''zz''" "''u1''" "''+1''"]
      guest_chat_posted_find none users0 users1
    by simp
qed

text \<open>
  A message starts with no reactions and \<open>add_reaction\<close> keeps every list of reacting
  users free of duplicates, so no user is ever listed twice for an emoji.
\<close>

lemma new_chat_message_reaction_users:
  "reaction_users (new_chat_message mid uid uname body mtype cid t rto) emoji = []"
  by (simp add: reaction_users_def)

lemma react_distinct:
  "distinct (reaction_users m e) \<Longrightarrow> distinct (reaction_users (react uid emoji m) e)"
  by (cases "e = emoji") (simp_all add: reaction_users_react reaction_users_react_other)

section \<open>The message cap of a channel\<close>

lemma send_message_result:
  assumes "send_message s uid cid body mtype rto env = Inr (resp, s')"
  shows "(\<not> is_sent resp \<and> messages s' = messages s) \<or>
         (\<exists>user ms. resp = Sent (new_uuid env) (t_msg env) \<and> users s uid = Some user
            \<and> map_of (messages s) cid = Some ms
            \<and> messages s' =
                AList.update cid
                  (if length (ms @ [new_chat_message (new_uuid env) uid (username user) body mtype
                                     cid (t_msg env) rto]) > max_messages_per_channel
                   then last_n max_messages_per_channel
                          (ms @ [new_chat_message (new_uuid env) uid (username user) body mtype
                                   cid (t_msg env) rto])
                   else ms @ [new_chat_message (new_uuid env) uid (username user) body mtype
                                cid (t_msg env) rto])
                  (messages s))"
proof (cases "users s uid")
  case None
  then show ?thesis using assms by (auto simp: send_message_def)
next
  case (Some user)
  note user = this
  show ?thesis
  proof (cases "map_of (channels s) cid")
    case None
    then show ?thesis using assms user by (auto simp: send_message_def)
  next
    case (Some channel)
    note chan = this
    show ?thesis
    proof (cases "can_user_send_message user channel")
      case (Inl e)
      then show ?thesis using assms user chan by (simp add: send_message_def)
    next
      case (Inr ok)
      note perm = this
      show ?thesis
      proof (cases ok)
        case False
        then show ?thesis using assms user chan perm by (auto simp: send_message_def)
      next
        case True
        note ok = this
        show ?thesis
        proof (cases "check_rate_limit s uid body (t_check env)")
          case (Inl e)
          then show ?thesis using assms user chan perm ok by (simp add: send_message_def)
        next
          case (Inr p)
          obtain acc s1 where p: "p = (acc, s1)" by (cases p)
          note frame = check_rate_limit_messages[OF Inr[unfolded p]]
          show ?thesis
          proof (cases acc)
            case False
            then show ?thesis
              using assms user chan perm ok Inr p frame by (auto simp: send_message_def)
          next
            case True
            then show ?thesis
              using assms user chan perm ok Inr p frame
              by (auto simp: send_message_def Let_def split: option.splits)
          qed
        qed
      qed
    qed
  qed
qed

lemma last_n_short: "length xs \<le> n \<Longrightarrow> last_n n xs = xs"
  by (simp add: last_n_def)

lemma length_last_n: "0 < n \<Longrightarrow> length (last_n n xs) = min n (length xs)"
  by (auto simp: last_n_def)

lemma map_last_n: "map f (last_n n xs) = last_n n (map f xs)"
  by (simp add: last_n_def drop_map)

lemma last_n_append_last_n: "last_n n (last_n n xs @ ys) = last_n n (xs @ ys)"
proof (cases "n = 0 \<or> length xs \<le> n")
  case True
  then show ?thesis by (auto simp: last_n_def)
next
  case False
  then have n: "0 < n" "n < length xs" by auto
  have "(length xs + length ys - n) - length xs = length ys - n"
    using n by arith
  moreover have "length ys + (length xs - n) = length xs + length ys - n"
    using n by arith
  ultimately show ?thesis
    using n by (simp add: last_n_def min_def add.commute)
qed

lemma delivered_Cons:
  "delivered cid (r # reqs) (resp # resps) =
     (if req_channel r = cid \<and> is_sent resp
      then [(new_uuid (req_env r), req_user r, req_body r)] else [])
     @ delivered cid reqs resps"
  by (simp add: delivered_def)

lemma delivered_Nil [simp]: "delivered cid [] resps = []"
  by (simp add: delivered_def)

lemma send_message_step:
  assumes send: "send_message s (req_user r) (req_channel r) (req_body r) (req_type r)
                   (req_reply_to r) (req_env r) = Inr (resp, s')"
    and ms0: "map_of (messages s) cid = Some ms0"
    and len: "length ms0 \<le> max_messages_per_channel"
  shows "\<exists>ms. map_of (messages s') cid = Some ms \<and> length ms \<le> max_messages_per_channel
           \<and> map stored ms =
               last_n max_messages_per_channel (map stored ms0 @ delivered cid [r] [resp])"
  using send_message_result[OF send]
proof (elim disjE exE conjE)
  assume "\<not> is_sent resp" and "messages s' = messages s"
  then show ?thesis using ms0 len by (simp add: delivered_Cons last_n_short)
next
  fix user ms
  let ?m = "new_chat_message (new_uuid (req_env r)) (req_user r) (username user) (req_body r)
               (req_type r) (req_channel r) (t_msg (req_env r)) (req_reply_to r)"
  assume resp: "resp = Sent (new_uuid (req_env r)) (t_msg (req_env r))"
    and ms: "map_of (messages s) (req_channel r) = Some ms"
    and upd: "messages s' = AList.update (req_channel r)
            (if length (ms @ [?m]) > max_messages_per_channel
             then last_n max_messages_per_channel (ms @ [?m]) else ms @ [?m]) (messages s)"
  have capped: "(if length (ms @ [?m]) > max_messages_per_channel
             then last_n max_messages_per_channel (ms @ [?m]) else ms @ [?m])
           = last_n max_messages_per_channel (ms @ [?m])"
    by (simp add: last_n_short)
  show ?thesis
  proof (cases "req_channel r = cid")
    case False
    have "map_of (messages s') cid = Some ms0"
      unfolding upd using False ms0 by (simp add: update_conv')
    moreover have "delivered cid [r] [resp] = []"
      using False by (simp add: delivered_Cons)
    ultimately show ?thesis using len by (simp add: last_n_short)
  next
    case True
    then have eq: "ms = ms0" using ms ms0 by simp
    have st: "stored ?m = (new_uuid (req_env r), req_user r, req_body r)"
      by (simp add: stored_def)
    have new: "map_of (messages s') cid = Some (last_n max_messages_per_channel (ms0 @ [?m]))"
      unfolding upd capped using True eq by (simp add: update_conv')
    have le: "length (last_n max_messages_per_channel (ms0 @ [?m])) \<le> max_messages_per_channel"
      by (simp add: length_last_n max_messages_per_channel_def)
    have dl: "delivered cid [r] [resp] = [(new_uuid (req_env r), req_user r, req_body r)]"
      using True resp by (simp add: delivered_Cons)
    have "map stored (last_n max_messages_per_channel (ms0 @ [?m])) =
            last_n max_messages_per_channel (map stored ms0 @ delivered cid [r] [resp])"
      unfolding dl map_last_n by (simp add: st)
    then show ?thesis using new le by blast
  qed
qed

lemma send_all_stored:
  assumes "send_all s reqs = Inr (resps, s')"
    and "map_of (messages s) cid = Some ms0"
    and "length ms0 \<le> max_messages_per_channel"
  shows "length resps = length reqs \<and>
         (\<exists>ms. map_of (messages s') cid = Some ms \<and> length ms \<le> max_messages_per_channel
           \<and> map stored ms =
               last_n max_messages_per_channel (map stored ms0 @ delivered cid reqs resps))"
  using assms
proof (induction reqs arbitrary: s resps ms0)
  case Nil
  then show ?case by (auto simp: last_n_short)
next
  case (Cons r reqs)
  from Cons.prems(1) obtain resp s1 resps1 where
    step: "send_message s (req_user r) (req_channel r) (req_body r) (req_type r)
             (req_reply_to r) (req_env r) = Inr (resp, s1)"
    and rest: "send_all s1 reqs = Inr (resps1, s')"
    and resps: "resps = resp # resps1"
    by (auto split: sum.splits prod.splits)
  from send_message_step[OF step Cons.prems(2,3)] obtain ms1 where
    ms1: "map_of (messages s1) cid = Some ms1" "length ms1 \<le> max_messages_per_channel"
      "map stored ms1 =
         last_n max_messages_per_channel (map stored ms0 @ delivered cid [r] [resp])"
    by blast
  from Cons.IH[OF rest ms1(1,2)] obtain ms where
    len: "length resps1 = length reqs"
    and ms: "map_of (messages s') cid = Some ms" "length ms \<le> max_messages_per_channel"
      "map stored ms =
         last_n max_messages_per_channel (map stored ms1 @ delivered cid reqs resps1)"
    by blast
  have "delivered cid (r # reqs) resps = delivered cid [r] [resp] @ delivered cid reqs resps1"
    by (simp add: resps delivered_Cons)
  then have "map stored ms =
         last_n max_messages_per_channel (map stored ms0 @ delivered cid (r # reqs) resps)"
    using ms(3) by (simp only: ms1(3) last_n_append_last_n append_assoc)
  then show ?case using len ms(1,2) by (simp add: resps)
qed

text \<open>
  Claim C6. Over any series of calls of \<open>send_message\<close> (to any channels, accepted or not),
  a channel that held at most 1000 messages holds at most 1000 afterwards, and its stored
  list is the last 1000 of what it held followed by the messages sent to it, in order. In
  particular an empty channel to which 1001 messages have been sent holds exactly 1000:
  all but the first.
\<close>

theorem channel_fifo_cap:
  assumes "send_all s reqs = Inr (resps, s')"
    and "map_of (messages s) cid = Some ms0"
    and "length ms0 \<le> 1000"
  shows "\<exists>ms. map_of (messages s') cid = Some ms \<and> length ms \<le> 1000
           \<and> map stored ms = last_n 1000 (map stored ms0 @ delivered cid reqs resps)
           \<and> (ms0 = [] \<and> length (delivered cid reqs resps) = 1001 \<longrightarrow>
                length ms = 1000 \<and> map stored ms = tl (delivered cid reqs resps))"
proof -
  from send_all_stored[OF assms(1,2)] assms(3) obtain ms where
    ms: "map_of (messages s') cid = Some ms" "length ms \<le> 1000"
      "map stored ms = last_n 1000 (map stored ms0 @ delivered cid reqs resps)"
    by (auto simp: max_messages_per_channel_def)
  have "length ms = 1000 \<and> map stored ms = tl (delivered cid reqs resps)"
    if "ms0 = []" and l: "length (delivered cid reqs resps) = 1001"
  proof -
    have eq: "map stored ms = drop 1 (delivered cid reqs resps)"
      using ms(3) that by (simp add: last_n_def)
    have "length (map stored ms) = 1000"
      unfolding eq using l by simp
    then have "length ms = 1000" by simp
    moreover have "map stored ms = tl (delivered cid reqs resps)"
      using eq by (simp add: drop_Suc)
    ultimately show ?thesis by (rule conjI)
  qed
  then show ?thesis using ms by blast
qed

lemma send_message_accepted:
  assumes user: "users s uid = Some user"
    and chan: "map_of (channels s) cid = Some ch"
    and pub: "channel_type ch = ''public''"
    and hist: "user_message_history s uid = Some hist"
    and old: "\<forall>m\<in>set hist. 60 \<le> t_check env - m"
    and body: "length body \<le> characters_per_message (rate_limits (role user))"
    and msgs: "map_of (messages s) cid = Some ms"
  shows "\<exists>s' user' ch' ms'.
           send_message s uid cid body mtype rto env = Inr (Sent (new_uuid env) (t_msg env), s')
         \<and> users s' uid = Some user' \<and> role user' = role user
         \<and> map_of (channels s') cid = Some ch' \<and> channel_type ch' = ''public''
         \<and> user_message_history s' uid = Some [t_check env]
         \<and> map_of (messages s') cid = Some ms'"
proof -
  have kept: "filter (\<lambda>m. t_check env - m < 60) hist = []"
    using old by (auto simp: filter_empty_conv)
  have rl: "check_rate_limit s uid body (t_check env) =
              Inr (True, s\<lparr>user_message_history :=
                            (user_message_history s)(uid \<mapsto> [t_check env])\<rparr>)"
    using body mpm_pos[of "role user"] by (simp add: check_rate_limit_eq[OF user hist] kept)
  have perm: "can_user_send_message user ch = Inr True"
    using pub by (simp add: can_user_send_message_def)
  show ?thesis
    by (simp add: send_message_def user chan perm rl msgs Let_def update_conv' pub)
qed

lemma burst_all_sent:
  assumes "users s ''u1'' = Some user"
    and "map_of (channels s) ''general'' = Some ch"
    and "channel_type ch = ''public''"
    and "user_message_history s ''u1'' = Some hist"
    and "\<forall>m\<in>set hist. m + 60 \<le> 60 * real k"
    and "5 \<le> characters_per_message (rate_limits (role user))"
    and "map_of (messages s) ''general'' = Some ms"
  shows "\<exists>s'. send_all s (burst k n) =
           Inr (map (\<lambda>i. Sent (replicate (Suc i) CHR ''m'') (60 * real i)) [k..<k + n], s')"
  using assms
proof (induction n arbitrary: s k user ch hist ms)
  case 0
  then show ?case by (simp add: burst_def)
next
  case (Suc n)
  let ?r = "nth_request k"
  have old: "\<forall>m\<in>set hist. 60 \<le> t_check (req_env ?r) - m"
    using Suc.prems(5) by (auto simp: nth_request_def)
  have body: "length (req_body ?r) \<le> characters_per_message (rate_limits (role user))"
    using Suc.prems(6) by (simp add: nth_request_def)
  from send_message_accepted[OF Suc.prems(1,2,3,4) old body Suc.prems(7),
         of "req_type ?r" "req_reply_to ?r"]
  obtain s1 user1 ch1 ms1 where
    step: "send_message s ''u1'' ''general'' (req_body ?r) (req_type ?r) (req_reply_to ?r)
             (req_env ?r) = Inr (Sent (new_uuid (req_env ?r)) (t_msg (req_env ?r)), s1)"
    and u1: "users s1 ''u1'' = Some user1" "role user1 = role user"
    and c1: "map_of (channels s1) ''general'' = Some ch1" "channel_type ch1 = ''public''"
    and h1: "user_message_history s1 ''u1'' = Some [t_check (req_env ?r)]"
    and m1: "map_of (messages s1) ''general'' = Some ms1"
    by blast
  have old1: "\<forall>m\<in>set [t_check (req_env ?r)]. m + 60 \<le> 60 * real (Suc k)"
    by (simp add: nth_request_def)
  have body1: "5 \<le> characters_per_message (rate_limits (role user1))"
    using Suc.prems(6) u1(2) by simp
  from Suc.IH[OF u1(1) c1 h1 old1 body1 m1]
  obtain s' where
    rest: "send_all s1 (burst (Suc k) n) =
             Inr (map (\<lambda>i. Sent (replicate (Suc i) CHR ''m'') (60 * real i)) [Suc k..<Suc k + n], s')"
    by blast
  have upt: "[k..<k + Suc n] = k # [Suc k..<Suc k + n]"
    by (simp add: upt_conv_Cons del: upt_Suc)
  have split: "burst k (Suc n) = ?r # burst (Suc k) n"
    unfolding burst_def upt by simp
  have step': "send_message s (req_user ?r) (req_channel ?r) (req_body ?r) (req_type ?r)
                 (req_reply_to ?r) (req_env ?r)
               = Inr (Sent (replicate (Suc k) CHR ''m'') (60 * real k), s1)"
    using step by (simp add: nth_request_def)
  have "send_all s (burst k (Suc n)) =
          Inr (Sent (replicate (Suc k) CHR ''m'') (60 * real k)
               # map (\<lambda>i. Sent (replicate (Suc i) CHR ''m'') (60 * real i)) [Suc k..<Suc k + n], s')"
    unfolding split by (simp add: step' rest)
  then show ?case unfolding upt by simp
qed

lemma delivered_burst:
  "delivered ''general'' (burst k n)
     (map (\<lambda>i. Sent (replicate (Suc i) CHR ''m'') (60 * real i)) [k..<k + n])
   = map (\<lambda>i. (replicate (Suc i) CHR ''m'', ''u1'', ''hello'')) [k..<k + n]"
  by (simp add: delivered_def burst_def zip_map_map zip_same_conv_map filter_map o_def
        nth_request_def)

lemma guest_chat_general:
  "map_of (channels guest_chat) ''general'' = Some (default_channels 0 ! 0)"
  "channel_type (default_channels 0 ! 0) = ''public''"
  "map_of (messages guest_chat) ''general'' = Some []"
  by (simp_all add: guest_chat_channels default_channels_def)

theorem channel_fifo_cap_witness:
  "\<exists>resps s' ms. send_all guest_chat (burst 0 1001) = Inr (resps, s')
      \<and> map_of (messages s') ''general'' = Some ms
      \<and> length ms = 1000
      \<and> map stored ms = map (\<lambda>i. (replicate (Suc i) CHR ''m'', ''u1'', ''hello'')) [Suc 0..<1001]"
proof -
  let ?resps = "map (\<lambda>i. Sent (replicate (Suc i) CHR ''m'') (60 * real i)) [0..<0 + 1001]"
  have "\<exists>s'. send_all guest_chat (burst 0 1001) = Inr (?resps, s')"
    by (rule burst_all_sent[OF guest_chat_user(1) guest_chat_general(1,2) guest_chat_user(2) _ _
               guest_chat_general(3)]) simp_all
  then obtain s' where run: "send_all guest_chat (burst 0 1001) = Inr (?resps, s')" ..
  have dl: "delivered ''general'' (burst 0 1001) ?resps =
              map (\<lambda>i. (replicate (Suc i) CHR ''m'', ''u1'', ''hello'')) [0..<0 + 1001]"
    by (rule delivered_burst)
  have len: "length (delivered ''general'' (burst 0 1001) ?resps) = 1001"
    unfolding dl by simp
  have tl: "tl (delivered ''general'' (burst 0 1001) ?resps) =
              map (\<lambda>i. (replicate (Suc i) CHR ''m'', ''u1'', ''hello'')) [Suc 0..<1001]"
    unfolding dl by (simp only: map_tl[symmetric] tl_upt add_0)
  have h: "length ([]::ChatMessage list) \<le> 1000" by simp
  from channel_fifo_cap[OF run guest_chat_general(3) h]
  obtain ms where ms: "map_of (messages s') ''general'' = Some ms"
    and imp: "[] = ([]::ChatMessage list) \<and> length (delivered ''general'' (burst 0 1001) ?resps) = 1001
              \<longrightarrow> length ms = 1000
                \<and> map stored ms = tl (delivered ''general'' (burst 0 1001) ?resps)"
    by blast
  have res: "length ms = 1000"
    "map stored ms = tl (delivered ''general'' (burst 0 1001) ?resps)"
    using imp len by blast+
  show ?thesis
    apply (rule exI[of _ ?resps], rule exI[of _ s'], rule exI[of _ ms])
    apply (intro conjI)
       apply (rule run)
      apply (rule ms)
     apply (rule res(1))
    apply (rule trans[OF res(2) tl])
    done
qed

text \<open>A rejection by the rate limiter is what \<open>send_message\<close> reports as "Rate limit exceeded".\<close>

lemma send_message_rate_limited:
  assumes "users s uid = Some user" and "map_of (channels s) cid = Some ch"
    and "can_user_send_message user ch = Inr True"
    and "check_rate_limit s uid body (t_check env) = Inr (False, s1)"
  shows "send_message s uid cid body mtype rto env = Inr (SendError ''Rate limit exceeded'', s1)"
  using assms by (simp add: send_message_def)

section \<open>Tasks: creation and execution\<close>

lemma fail_task_simps [simp]:
  "fst (fail_task e task) = ExecError e"
  "task_status (snd (fail_task e task)) = ERROR"
  "progress (snd (fail_task e task)) = progress task"
  by (simp_all add: fail_task_def set_result_def)

lemma set_result_simps [simp]:
  "task_status (set_result k v task) = task_status task"
  "progress (set_result k v task) = progress task"
  "task_type (set_result k v task) = task_type task"
  "task_id (set_result k v task) = task_id task"
  by (simp_all add: set_result_def)

lemma success_response_simps [simp]:
  "fst (success_response task) =
     ExecSuccess (task_id task) (status_value (task_status task)) (progress task) (results task)"
  "snd (success_response task) = task"
  by (simp_all add: success_response_def)

lemma run_executor_status:
  "task_status (snd (run_executor task llm t2)) = COMPLETED \<and>
     progress (snd (run_executor task llm t2)) = 100 \<and>
     (\<exists>r. fst (run_executor task llm t2) = ExecSuccess (task_id task) ''completed'' 100 r)
   \<or> task_status (snd (run_executor task llm t2)) = ERROR \<and>
     (\<exists>e. fst (run_executor task llm t2) = ExecError e)"
  by (cases llm)
     (auto simp: run_executor_def execute_website_creation_def execute_presentation_creation_def
        execute_image_generation_def execute_api_development_def
        execute_fullstack_development_def execute_general_response_def
        split: option.splits)

lemma execute_task_known:
  "active_tasks s tid = Some task \<Longrightarrow>
     execute_task s tid llm t1 t2 =
       (fst (run_executor (task\<lparr>task_status := EXECUTING, updated_at := t1\<rparr>) llm t2),
        s\<lparr>active_tasks := (active_tasks s)
             (tid \<mapsto> snd (run_executor (task\<lparr>task_status := EXECUTING, updated_at := t1\<rparr>) llm t2))\<rparr>)"
  by (simp add: execute_task_def Let_def split: prod.splits)

lemma run_executor_progress:
  "task_status (snd (run_executor task llm t2)) \<noteq> ERROR \<Longrightarrow>
     progress (snd (run_executor task llm t2)) = 100"
  using run_executor_status[of task llm t2] by auto

text \<open>
  Claim C1, as amended. \<open>execute_task\<close> has no guard on the task's status: for an unknown id
  it answers "Task not found" and changes nothing; for a known id it runs the executor
  again whatever the status (COMPLETED and ERROR included), with the same outcome for every
  prior status. The task ends COMPLETED with progress 100 and a success answer, or ERROR
  with an error answer. Whenever the task does not end in ERROR its progress (100) is not
  below the progress it had, given that was at most 100.
\<close>

theorem execute_task_reruns:
  "(active_tasks s tid = None \<longrightarrow>
      execute_task s tid llm t1 t2 = (ExecError ''Task not found'', s))
   \<and> (\<forall>task. active_tasks s tid = Some task \<longrightarrow>
        (\<exists>task'. active_tasks (snd (execute_task s tid llm t1 t2)) tid = Some task'
           \<and> (task_status task' = COMPLETED \<and> progress task' = 100
                \<and> (\<exists>r. fst (execute_task s tid llm t1 t2) =
                          ExecSuccess (task_id task) ''completed'' 100 r)
              \<or> task_status task' = ERROR
                \<and> (\<exists>e. fst (execute_task s tid llm t1 t2) = ExecError e))
           \<and> (task_status task' \<noteq> ERROR \<and> progress task \<le> 100 \<longrightarrow>
                progress task \<le> progress task'))
      \<and> (\<forall>st. execute_task
                  (s\<lparr>active_tasks := (active_tasks s)(tid \<mapsto> task\<lparr>task_status := st\<rparr>)\<rparr>)
                  tid llm t1 t2
                = execute_task s tid llm t1 t2))"
proof (intro conjI allI impI)
  assume "active_tasks s tid = None"
  then show "execute_task s tid llm t1 t2 = (ExecError ''Task not found'', s)"
    by (simp add: execute_task_def)
next
  fix task assume known: "active_tasks s tid = Some task"
  let ?t = "task\<lparr>task_status := EXECUTING, updated_at := t1\<rparr>"
  let ?task' = "snd (run_executor ?t llm t2)"
  have after: "active_tasks (snd (execute_task s tid llm t1 t2)) tid = Some ?task'"
    by (simp add: execute_task_known[OF known])
  have resp: "fst (execute_task s tid llm t1 t2) = fst (run_executor ?t llm t2)"
    by (simp add: execute_task_known[OF known])
  have outcome: "task_status ?task' = COMPLETED \<and> progress ?task' = 100
                \<and> (\<exists>r. fst (execute_task s tid llm t1 t2) =
                          ExecSuccess (task_id task) ''completed'' 100 r)
              \<or> task_status ?task' = ERROR
                \<and> (\<exists>e. fst (execute_task s tid llm t1 t2) = ExecError e)"
    using run_executor_status[of ?t llm t2] by (simp add: resp)
  have mono: "task_status ?task' \<noteq> ERROR \<and> progress task \<le> 100 \<longrightarrow>
                progress task \<le> progress ?task'"
    using run_executor_progress[of ?t llm t2] by simp
  show "\<exists>task'. active_tasks (snd (execute_task s tid llm t1 t2)) tid = Some task'
           \<and> (task_status task' = COMPLETED \<and> progress task' = 100
                \<and> (\<exists>r. fst (execute_task s tid llm t1 t2) =
                          ExecSuccess (task_id task) ''completed'' 100 r)
              \<or> task_status task' = ERROR
                \<and> (\<exists>e. fst (execute_task s tid llm t1 t2) = ExecError e))
           \<and> (task_status task' \<noteq> ERROR \<and> progress task \<le> 100 \<longrightarrow>
                progress task \<le> progress task')"
    using after outcome mono by blast
next
  fix task st assume known: "active_tasks s tid = Some task"
  let ?s = "s\<lparr>active_tasks := (active_tasks s)(tid \<mapsto> task\<lparr>task_status := st\<rparr>)\<rparr>"
  have k: "active_tasks ?s tid = Some (task\<lparr>task_status := st\<rparr>)" by simp
  have same: "s\<lparr>active_tasks := (active_tasks s)(tid \<mapsto> x)\<rparr> =
              ?s\<lparr>active_tasks := (active_tasks ?s)(tid \<mapsto> x)\<rparr>" for x
    by simp
  show "execute_task ?s tid llm t1 t2 = execute_task s tid llm t1 t2"
    unfolding execute_task_known[OF known] execute_task_known[OF k] by simp
qed

lemma create_task_raises:
  "create_task s user_input (Raises e) new_id t1 t2 =
     Inr (new_id,
          s\<lparr>active_tasks := (active_tasks s)(new_id \<mapsto>
             \<lparr>task_id = new_id, task_type = GENERAL_CHAT,
              task_description = ''General request: '' @ user_input,
              task_status = PLANNING, progress = 0,
              steps = [''Process request'', ''Generate response''], current_step = 0,
              results = [(''analysis'', RAnalysis (analyze_intent user_input (Raises e))),
                         (''user_input'', RString user_input)],
              task_created_at = t1, updated_at = t2\<rparr>)\<rparr>)"
  by (simp add: create_task_def analyze_intent_def TaskType_of_def Let_def)

text \<open>
  Claim C4, as amended. When the classifier call (or the parsing of its answer) raises,
  \<open>create_task\<close> raises nothing: it substitutes the GENERAL\_CHAT classification with the
  two-step plan "Process request", "Generate response", stores the task in status PLANNING
  with progress 0 and step 0, and returns its id.
\<close>

theorem create_task_fallback:
  "\<exists>s' task. create_task s user_input (Raises e) new_id t1 t2 = Inr (new_id, s')
      \<and> active_tasks s' new_id = Some task
      \<and> task_id task = new_id \<and> task_type task = GENERAL_CHAT
      \<and> task_description task = ''General request: '' @ user_input
      \<and> task_status task = PLANNING \<and> progress task = 0 \<and> current_step task = 0
      \<and> steps task = [''Process request'', ''Generate response'']
      \<and> map_of (results task) ''user_input'' = Some (RString user_input)"
  by (simp add: create_task_raises)

lemma ai_created_task:
  "create_task init_ai ''hello'' (Raises ''timeout'') ''t1'' 1 1 = Inr (''t1'', ai_created)"
  "map_option steps (active_tasks ai_created ''t1'') =
     Some [''Process request'', ''Generate response'']"
  "map_option task_type (active_tasks ai_created ''t1'') = Some GENERAL_CHAT"
  "map_option task_status (active_tasks ai_created ''t1'') = Some PLANNING"
  "map_option progress (active_tasks ai_created ''t1'') = Some 0"
  by (simp_all add: ai_created_def create_task_raises)

text \<open>
  Claim C4 as stated fails: the plan substituted when the classifier fails has two steps,
  not one.
\<close>

theorem create_task_fallback_two_steps:
  "create_task init_ai ''hello'' (Raises ''timeout'') ''t1'' 1 1 = Inr (''t1'', ai_created)
   \<and> map_option steps (active_tasks ai_created ''t1'') =
        Some [''Process request'', ''Generate response'']
   \<and> map_option (length \<circ> steps) (active_tasks ai_created ''t1'') \<noteq> Some 1"
  using ai_created_task(1,2) by (auto simp: map_option_case split: option.splits)

text \<open>
  A classifier answer that parses but names no known task type is not caught:
  \<open>TaskType(...)\<close> raises ValueError out of \<open>create_task\<close>.
\<close>

lemma create_task_unknown_type:
  "create_task init_ai ''hello''
     (Returns \<lparr>an_task_type = Some ''chat'', an_complexity = None, an_confidence = None,
               an_description = Some ''d'', an_technologies = None, an_steps = Some [],
               an_estimated_time = None, an_deliverables = None\<rparr>) ''t1'' 1 1
   = Inl ValueError"
  by (simp add: create_task_def analyze_intent_def TaskType_of_def)

lemma ai_failed_task:
  "map_option task_status (active_tasks ai_failed ''t1'') = Some ERROR"
  "map_option progress (active_tasks ai_failed ''t1'') = Some 0"
  "map_option task_type (active_tasks ai_failed ''t1'') = Some GENERAL_CHAT"
  by (simp_all add: ai_failed_def ai_created_def create_task_raises execute_task_def
        run_executor_def execute_general_response_def fail_task_def set_result_def Let_def)

lemma ai_done_task:
  "map_option task_status (active_tasks ai_done ''t1'') = Some COMPLETED"
  "map_option progress (active_tasks ai_done ''t1'') = Some 100"
  by (simp_all add: ai_done_def ai_created_def create_task_raises execute_task_def
        run_executor_def execute_general_response_def success_response_def set_result_def
        Let_def)

text \<open>
  Claim C1 as stated fails: a task in status ERROR is executed again, the call succeeds
  and the task becomes COMPLETED with progress 100.
\<close>

theorem execute_task_reruns_error:
  "map_option task_status (active_tasks ai_failed ''t1'') = Some ERROR
   \<and> \<not> is_exec_error (fst (execute_task ai_failed ''t1'' (Content ''hi'') 3 3))
   \<and> map_option task_status
        (active_tasks (snd (execute_task ai_failed ''t1'' (Content ''hi'') 3 3)) ''t1'')
      = Some COMPLETED
   \<and> map_option progress
        (active_tasks (snd (execute_task ai_failed ''t1'' (Content ''hi'') 3 3)) ''t1'')
      = Some 100"
  by (simp add: ai_failed_def ai_created_def create_task_raises execute_task_def
        run_executor_def execute_general_response_def fail_task_def success_response_def
        set_result_def Let_def)

theorem execute_task_reruns_witness:
  "map_option task_status (active_tasks ai_done ''t1'') = Some COMPLETED
   \<and> fst (execute_task ai_done ''t1'' (CallRaises ''down'') 3 3) = ExecError ''down''
   \<and> map_option task_status
        (active_tasks (snd (execute_task ai_done ''t1'' (CallRaises ''down'') 3 3)) ''t1'')
      = Some ERROR
   \<and> execute_task init_ai ''t1'' (Content ''hi'') 3 3 = (ExecError ''Task not found'', init_ai)"
proof -
  have none: "active_tasks init_ai ''t1'' = None" by (simp add: init_ai_def)
  have resp: "fst (execute_task ai_done ''t1'' (CallRaises ''down'') 3 3) = ExecError ''down''"
    by (simp add: ai_done_def ai_created_def create_task_raises execute_task_def
        run_executor_def execute_general_response_def fail_task_def success_response_def
        set_result_def Let_def)
  obtain task where task: "active_tasks ai_done ''t1'' = Some task"
    using ai_done_task(1) by (cases "active_tasks ai_done ''t1''") auto
  show ?thesis
    using execute_task_reruns[of init_ai "''t1''" "Content ''hi''" 3 3]
      execute_task_reruns[of ai_done "''t1''" "CallRaises ''down''" 3 3]
      none resp task ai_done_task(1)
    by auto
qed

section \<open>The mode router\<close>

lemma lower_build: "lower ''build me a website'' = ''build me a website''"
  by (simp add: lower_def lower_char_def)

lemma scores_build:
  "agent_score ''build me a website'' = 2"
  "chat_score ''build me a website'' = 0"
  by (simp_all add: agent_score_def chat_score_def lower_build agent_keywords_def
        chat_keywords_def)

lemma str_of_nat_2: "str_of_nat 2 = ''2''"
  by (simp add: str_of_nat_def numeral_2_eq_2)

lemma fallback_build:
  "fallback_analysis ''build me a website'' =
     \<lparr>ia_intent = Some ''Task execution request'', ia_recommended_mode = Some ''agent'',
      ia_confidence = Some 0.7,
      ia_reasoning = Some ''Message contains 2 execution-related keywords''\<rparr>"
  by (simp add: fallback_analysis_def scores_build str_of_nat_2)

lemma confidence_high:
  "(min 0.8 (0.5 + real n * 0.1) > (0.7::real)) = (3 \<le> n)"
proof (cases "3 \<le> n")
  case True
  then have "3 \<le> real n" by simp
  then show ?thesis using True by (simp add: min_def)
next
  case False
  then have "real n \<le> 2" by simp
  then show ?thesis using False by (simp add: min_def)
qed

lemma process_chat_mode_simps [simp]:
  "mode (snd (process_chat_mode s msg env)) = mode s"
  "session_id (snd (process_chat_mode s msg env)) = session_id s"
  "session_message_count (snd (process_chat_mode s msg env)) = session_message_count s"
  "r_mode (fst (process_chat_mode s msg env)) = ''chat''"
  "r_session_id (fst (process_chat_mode s msg env)) = session_id s"
  "r_adaptive_analysis (fst (process_chat_mode s msg env)) = None"
  by (simp_all add: process_chat_mode_def Let_def)

lemma process_agent_mode_simps [simp]:
  "mode (fst (snd (process_agent_mode s ai msg env))) = mode s"
  "session_id (fst (snd (process_agent_mode s ai msg env))) = session_id s"
  "session_message_count (fst (snd (process_agent_mode s ai msg env))) = session_message_count s"
  by (simp_all add: process_agent_mode_def Let_def split: sum.splits prod.splits)

lemma process_agent_mode_response:
  "fst (process_agent_mode s ai msg env) = Inr r \<Longrightarrow>
     r_mode r = ''agent'' \<and> r_session_id r = session_id s \<and> r_adaptive_analysis r = None"
  by (auto simp: process_agent_mode_def Let_def split: sum.splits prod.splits)

lemma adaptive_low:
  assumes "ia_recommended_mode (analyze_message_intent msg (intent_llm env)) = Some recommended"
    and "ia_confidence (analyze_message_intent msg (intent_llm env)) = Some conf"
    and "ia_reasoning (analyze_message_intent msg (intent_llm env)) = Some reasoning"
    and "ia_intent (analyze_message_intent msg (intent_llm env)) = Some intent"
    and "\<not> conf > 0.7"
  shows "process_adaptive_mode s ai msg env =
           (Inr ((fst (process_chat_mode s msg env))\<lparr>r_adaptive_analysis := Some
                   \<lparr>detected_intent = intent, aa_recommended_mode = recommended,
                    aa_confidence = conf, aa_reasoning = reasoning,
                    mode_switched = False, clarification_needed = Some True\<rparr>\<rparr>),
            snd (process_chat_mode s msg env), ai)"
  using assms by (simp add: process_adaptive_mode_def Let_def split: prod.splits)

lemma adaptive_high:
  assumes "ia_recommended_mode (analyze_message_intent msg (intent_llm env)) = Some recommended"
    and "ia_confidence (analyze_message_intent msg (intent_llm env)) = Some conf"
    and "ia_reasoning (analyze_message_intent msg (intent_llm env)) = Some reasoning"
    and "ia_intent (analyze_message_intent msg (intent_llm env)) = Some intent"
    and "conf > 0.7"
    and "ChatMode_of recommended = Inr m"
  shows "mode (fst (snd (process_adaptive_mode s ai msg env))) = m"
    and "fst (process_adaptive_mode s ai msg env) = Inr r \<Longrightarrow>
           r_mode r = (if recommended = ''agent'' then ''agent'' else ''chat'')
         \<and> r_adaptive_analysis r = Some
              \<lparr>detected_intent = intent, aa_recommended_mode = recommended,
               aa_confidence = conf, aa_reasoning = reasoning,
               mode_switched = True, clarification_needed = None\<rparr>"
proof -
  show "mode (fst (snd (process_adaptive_mode s ai msg env))) = m"
  proof (cases "recommended = ''agent''")
    case True
    obtain res s2 ai2 where p: "process_agent_mode (s\<lparr>mode := m\<rparr>) ai msg env = (res, s2, ai2)"
      by (cases "process_agent_mode (s\<lparr>mode := m\<rparr>) ai msg env") auto
    have "mode s2 = m"
      using process_agent_mode_simps(1)[of "s\<lparr>mode := m\<rparr>" ai msg env] by (simp add: p)
    then show ?thesis
      using assms True p by (simp add: process_adaptive_mode_def Let_def split: sum.splits)
  next
    case False
    then show ?thesis
      using assms by (simp add: process_adaptive_mode_def Let_def case_prod_beta)
  qed
  show "r_mode r = (if recommended = ''agent'' then ''agent'' else ''chat'')
         \<and> r_adaptive_analysis r = Some
              \<lparr>detected_intent = intent, aa_recommended_mode = recommended,
               aa_confidence = conf, aa_reasoning = reasoning,
               mode_switched = True, clarification_needed = None\<rparr>"
    if r: "fst (process_adaptive_mode s ai msg env) = Inr r"
  proof (cases "recommended = ''agent''")
    case True
    obtain res s2 ai2 where p: "process_agent_mode (s\<lparr>mode := m\<rparr>) ai msg env = (res, s2, ai2)"
      by (cases "process_agent_mode (s\<lparr>mode := m\<rparr>) ai msg env") auto
    show ?thesis
    proof (cases res)
      case (Inl e)
      then show ?thesis
        using assms True p r by (simp add: process_adaptive_mode_def Let_def)
    next
      case (Inr r0)
      have "r_mode r0 = ''agent''"
        using process_agent_mode_response[of "s\<lparr>mode := m\<rparr>" ai msg env r0] p Inr by simp
      then show ?thesis
        using assms True p r Inr by (auto simp: process_adaptive_mode_def Let_def)
    qed
  next
    case False
    then show ?thesis
      using assms r by (auto simp: process_adaptive_mode_def Let_def case_prod_beta)
  qed
qed

lemma fallback_fields:
  "\<exists>rec conf rs i. ia_recommended_mode (fallback_analysis msg) = Some rec
      \<and> ia_confidence (fallback_analysis msg) = Some conf
      \<and> ia_reasoning (fallback_analysis msg) = Some rs
      \<and> ia_intent (fallback_analysis msg) = Some i
      \<and> (conf > 0.7 \<longleftrightarrow> 3 \<le> max (agent_score msg) (chat_score msg))
      \<and> rec = (if agent_score msg > chat_score msg then ''agent'' else ''chat'')"
proof -
  define n where "n = max (agent_score msg) (chat_score msg)"
  define conf :: real where "conf = min 0.8 (0.5 + real n * 0.1)"
  have hi: "(conf > 0.7) = (3 \<le> n)"
    unfolding conf_def by (rule confidence_high)
  have c: "ia_confidence (fallback_analysis msg) = Some conf"
    unfolding conf_def n_def by (simp add: fallback_analysis_def max_def)
  have r: "ia_recommended_mode (fallback_analysis msg) =
             Some (if agent_score msg > chat_score msg then ''agent'' else ''chat'')"
    by (simp add: fallback_analysis_def)
  have o: "\<exists>rs. ia_reasoning (fallback_analysis msg) = Some rs"
    "\<exists>i. ia_intent (fallback_analysis msg) = Some i"
    by (simp_all add: fallback_analysis_def)
  show ?thesis
    using hi c r o unfolding n_def by blast
qed

text \<open>
  Claim C3, as amended. With the keyword fallback (the intent model fails), the message
  "build me a website" scores 2 agent keywords and 0 chat keywords, so the recommendation
  is "agent" with confidence \<open>min(0.8, 0.5 + 0.1 * 2) = 0.7\<close>. This is not above 0.7: the
  stored mode is left as it was and the message is answered in chat mode with
  \<open>mode_switched = False\<close> and \<open>clarification_needed = True\<close>. In general, for an analysis
  with all its keys: when the confidence is not above 0.7 the stored mode is unchanged and
  the answer is a chat answer flagged \<open>clarification_needed\<close>; when it is above 0.7 the
  stored mode becomes the recommended mode and an answer carries \<open>mode_switched = True\<close>.
  With the fallback the confidence is above 0.7 exactly when the winning score is 3 or
  more.
\<close>

theorem adaptive_routing:
  "(intent_llm env = Raises e \<longrightarrow>
      agent_score ''build me a website'' = 2 \<and> chat_score ''build me a website'' = 0
    \<and> analyze_message_intent ''build me a website'' (intent_llm env) =
          \<lparr>ia_intent = Some ''Task execution request'', ia_recommended_mode = Some ''agent'',
           ia_confidence = Some 0.7,
           ia_reasoning = Some ''Message contains 2 execution-related keywords''\<rparr>
    \<and> mode (fst (snd (process_adaptive_mode s ai ''build me a website'' env))) = mode s
    \<and> (\<exists>r. fst (process_adaptive_mode s ai ''build me a website'' env) = Inr r
           \<and> r_mode r = ''chat''
           \<and> r_adaptive_analysis r = Some
                \<lparr>detected_intent = ''Task execution request'', aa_recommended_mode = ''agent'',
                 aa_confidence = 0.7,
                 aa_reasoning = ''Message contains 2 execution-related keywords'',
                 mode_switched = False, clarification_needed = Some True\<rparr>))
   \<and> (\<forall>recommended conf reasoning intent.
         ia_recommended_mode (analyze_message_intent msg (intent_llm env)) = Some recommended
       \<and> ia_confidence (analyze_message_intent msg (intent_llm env)) = Some conf
       \<and> ia_reasoning (analyze_message_intent msg (intent_llm env)) = Some reasoning
       \<and> ia_intent (analyze_message_intent msg (intent_llm env)) = Some intent \<longrightarrow>
         (\<not> conf > 0.7 \<longrightarrow>
            mode (fst (snd (process_adaptive_mode s ai msg env))) = mode s
          \<and> (\<exists>r. fst (process_adaptive_mode s ai msg env) = Inr r \<and> r_mode r = ''chat''
                 \<and> r_adaptive_analysis r = Some
                      \<lparr>detected_intent = intent, aa_recommended_mode = recommended,
                       aa_confidence = conf, aa_reasoning = reasoning,
                       mode_switched = False, clarification_needed = Some True\<rparr>))
       \<and> (conf > 0.7 \<longrightarrow> (\<forall>m. ChatMode_of recommended = Inr m \<longrightarrow>
            mode (fst (snd (process_adaptive_mode s ai msg env))) = m
          \<and> (\<forall>r. fst (process_adaptive_mode s ai msg env) = Inr r \<longrightarrow>
                 r_mode r = (if recommended = ''agent'' then ''agent'' else ''chat'')
               \<and> r_adaptive_analysis r = Some
                    \<lparr>detected_intent = intent, aa_recommended_mode = recommended,
                     aa_confidence = conf, aa_reasoning = reasoning,
                     mode_switched = True, clarification_needed = None\<rparr>))))
   \<and> (intent_llm env = Raises e \<longrightarrow>
        (\<exists>conf. ia_confidence (analyze_message_intent msg (intent_llm env)) = Some conf
           \<and> (conf > 0.7 \<longleftrightarrow> 3 \<le> max (agent_score msg) (chat_score msg))))"
  (is "(?off \<longrightarrow> ?A) \<and> ?B \<and> (?off \<longrightarrow> ?C)")
proof -
  have A: ?A if off: ?off
  proof -
    let ?m = "''build me a website''"
    have an: "analyze_message_intent ?m (intent_llm env) = fallback_analysis ?m"
      using off by (simp add: analyze_message_intent_def)
    note low = adaptive_low[of ?m env "''agent''" "0.7"
                 "''Message contains 2 execution-related keywords''"
                 "''Task execution request''" s ai]
    have run: "process_adaptive_mode s ai ?m env =
           (Inr ((fst (process_chat_mode s ?m env))\<lparr>r_adaptive_analysis := Some
                   \<lparr>detected_intent = ''Task execution request'',
                    aa_recommended_mode = ''agent'', aa_confidence = 0.7,
                    aa_reasoning = ''Message contains 2 execution-related keywords'',
                    mode_switched = False, clarification_needed = Some True\<rparr>\<rparr>),
            snd (process_chat_mode s ?m env), ai)"
      by (rule low) (simp_all add: an fallback_build)
    show ?thesis
      unfolding run by (simp add: scores_build an fallback_build)
  qed
  have B: ?B
  proof (intro allI impI, elim conjE, intro conjI impI allI)
    fix recommended conf reasoning intent
    assume f: "ia_recommended_mode (analyze_message_intent msg (intent_llm env)) = Some recommended"
      "ia_confidence (analyze_message_intent msg (intent_llm env)) = Some conf"
      "ia_reasoning (analyze_message_intent msg (intent_llm env)) = Some reasoning"
      "ia_intent (analyze_message_intent msg (intent_llm env)) = Some intent"
    {
      assume lo: "\<not> conf > 0.7"
      note run = adaptive_low[OF f lo, of s ai]
      show "mode (fst (snd (process_adaptive_mode s ai msg env))) = mode s"
        unfolding run by simp
      show "\<exists>r. fst (process_adaptive_mode s ai msg env) = Inr r \<and> r_mode r = ''chat''
                 \<and> r_adaptive_analysis r = Some
                      \<lparr>detected_intent = intent, aa_recommended_mode = recommended,
                       aa_confidence = conf, aa_reasoning = reasoning,
                       mode_switched = False, clarification_needed = Some True\<rparr>"
        unfolding run by simp
    }
    {
      fix m assume hi: "conf > 0.7" and m: "ChatMode_of recommended = Inr m"
      show "mode (fst (snd (process_adaptive_mode s ai msg env))) = m"
        by (rule adaptive_high(1)[OF f hi m])
      fix r assume r: "fst (process_adaptive_mode s ai msg env) = Inr r"
      show "r_mode r = (if recommended = ''agent'' then ''agent'' else ''chat'')"
        using adaptive_high(2)[OF f hi m r] by simp
      show "r_adaptive_analysis r = Some
                    \<lparr>detected_intent = intent, aa_recommended_mode = recommended,
                     aa_confidence = conf, aa_reasoning = reasoning,
                     mode_switched = True, clarification_needed = None\<rparr>"
        using adaptive_high(2)[OF f hi m r] by simp
    }
  qed
  have C: ?C if off: ?off
    using fallback_fields[of msg] off by (auto simp: analyze_message_intent_def)
  show ?thesis using A B C by blast
qed

lemma process_chat_mode_context [simp]:
  "prefix (session_context s) (session_context (snd (process_chat_mode s msg env)))"
  by (simp add: process_chat_mode_def Let_def)

lemma process_agent_mode_context [simp]:
  "prefix (session_context s) (session_context (fst (snd (process_agent_mode s ai msg env))))"
  by (simp add: process_agent_mode_def Let_def split: sum.splits prod.splits)

lemma process_agent_mode_offline:
  "task_classifier env = Raises e \<Longrightarrow> \<exists>r. fst (process_agent_mode s ai msg env) = Inr r"
  by (simp add: process_agent_mode_def Let_def create_task_raises)

lemma process_adaptive_mode_session:
  "session_id (fst (snd (process_adaptive_mode s ai msg env))) = session_id s
   \<and> session_message_count (fst (snd (process_adaptive_mode s ai msg env))) = session_message_count s
   \<and> prefix (session_context s) (session_context (fst (snd (process_adaptive_mode s ai msg env))))"
proof -
  let ?a = "analyze_message_intent msg (intent_llm env)"
  show ?thesis
  proof (cases "ia_recommended_mode ?a")
    case None
    then show ?thesis by (simp add: process_adaptive_mode_def)
  next
    case rec: (Some recommended)
    show ?thesis
    proof (cases "ia_confidence ?a")
      case None
      then show ?thesis using rec by (simp add: process_adaptive_mode_def)
    next
      case conf: (Some c)
      show ?thesis
      proof (cases "ia_reasoning ?a")
        case None
        then show ?thesis using rec conf by (simp add: process_adaptive_mode_def)
      next
        case rs: (Some reasoning)
        show ?thesis
        proof (cases "c > 0.7")
          case False
          then show ?thesis
            using rec conf rs
            by (simp add: process_adaptive_mode_def case_prod_beta split: option.splits)
        next
          case True
          show ?thesis
          proof (cases "ChatMode_of recommended")
            case (Inl e)
            then show ?thesis using rec conf rs True by (simp add: process_adaptive_mode_def)
          next
            case (Inr m)
            show ?thesis
            proof (cases "recommended = ''agent''")
              case agent: True
              obtain res s2 ai2 where
                p: "process_agent_mode (s\<lparr>mode := m\<rparr>) ai msg env = (res, s2, ai2)"
                by (cases "process_agent_mode (s\<lparr>mode := m\<rparr>) ai msg env") auto
              have s2: "session_id s2 = session_id s"
                "session_message_count s2 = session_message_count s"
                "prefix (session_context s) (session_context s2)"
                using process_agent_mode_simps(2,3)[of "s\<lparr>mode := m\<rparr>" ai msg env]
                  process_agent_mode_context[of "s\<lparr>mode := m\<rparr>" ai msg env]
                by (simp_all add: p)
              show ?thesis
                using rec conf rs True Inr agent p s2
                by (simp add: process_adaptive_mode_def split: sum.splits option.splits)
            next
              case chat: False
              have c2: "prefix (session_context s)
                          (session_context (snd (process_chat_mode (s\<lparr>mode := m\<rparr>) msg env)))"
                using process_chat_mode_context[of "s\<lparr>mode := m\<rparr>" msg env] by simp
              show ?thesis
                using rec conf rs True Inr chat c2
                by (simp add: process_adaptive_mode_def case_prod_beta Let_def
                      split: option.splits)
            qed
          qed
        qed
      qed
    qed
  qed
qed

lemma process_adaptive_mode_response:
  "fst (process_adaptive_mode s ai msg env) = Inr r \<Longrightarrow> r_session_id r = session_id s"
proof -
  assume r: "fst (process_adaptive_mode s ai msg env) = Inr r"
  let ?a = "analyze_message_intent msg (intent_llm env)"
  obtain recommended where f1: "ia_recommended_mode ?a = Some recommended"
    using r by (cases "ia_recommended_mode ?a") (simp_all add: process_adaptive_mode_def)
  obtain c where f2: "ia_confidence ?a = Some c"
    using r f1 by (cases "ia_confidence ?a") (simp_all add: process_adaptive_mode_def)
  obtain reasoning where f3: "ia_reasoning ?a = Some reasoning"
    using r f1 f2 by (cases "ia_reasoning ?a") (simp_all add: process_adaptive_mode_def)
  note f = f1 f2 f3
  show ?thesis
  proof (cases "c > 0.7")
    case False
    then show ?thesis
      using r f by (auto simp: process_adaptive_mode_def case_prod_beta Let_def split: option.splits)
  next
    case True
    from r f True obtain m where m: "ChatMode_of recommended = Inr m"
      by (cases "ChatMode_of recommended") (auto simp: process_adaptive_mode_def)
    show ?thesis
    proof (cases "recommended = ''agent''")
      case agent: True
      obtain res s2 ai2 where
        p: "process_agent_mode (s\<lparr>mode := m\<rparr>) ai msg env = (res, s2, ai2)"
        by (cases "process_agent_mode (s\<lparr>mode := m\<rparr>) ai msg env") auto
      show ?thesis
      proof (cases res)
        case (Inl e)
        then show ?thesis
          using r f True m agent p by (simp add: process_adaptive_mode_def)
      next
        case (Inr r0)
        have "r_session_id r0 = session_id s"
          using process_agent_mode_response[of "s\<lparr>mode := m\<rparr>" ai msg env r0] p Inr by simp
        then show ?thesis
          using r f True m agent p Inr
          by (auto simp: process_adaptive_mode_def Let_def split: option.splits)
      qed
    next
      case False
      then show ?thesis
        using r f True m
        by (auto simp: process_adaptive_mode_def case_prod_beta Let_def split: option.splits)
    qed
  qed
qed

lemma dispatch_mode_session:
  "session_id (fst (snd (dispatch_mode cm s ai msg env))) = session_id s
   \<and> session_message_count (fst (snd (dispatch_mode cm s ai msg env))) = session_message_count s
   \<and> prefix (session_context s) (session_context (fst (snd (dispatch_mode cm s ai msg env))))"
  using process_adaptive_mode_session[of s ai msg env]
  by (cases cm) (simp_all add: dispatch_mode_def process_custom_mode_def case_prod_beta)

lemma dispatch_mode_response:
  "fst (dispatch_mode cm s ai msg env) = Inr r \<Longrightarrow> r_session_id r = session_id s"
  using process_adaptive_mode_response[of s ai msg env r]
    process_agent_mode_response[of s ai msg env r]
  by (cases cm) (auto simp: dispatch_mode_def process_custom_mode_def case_prod_beta)

lemma dispatch_mode_chat:
  "cm = CHAT \<or> cm = CUSTOM \<Longrightarrow> \<exists>r. fst (dispatch_mode cm s ai msg env) = Inr r"
  by (auto simp: dispatch_mode_def process_custom_mode_def case_prod_beta)

lemma process_message_known:
  assumes "active_sessions mgr sid = Some s0"
  shows "process_message mgr sid msg m env =
     (let s1 = s0\<lparr>last_activity := now env,
                    session_message_count := session_message_count s0 + 1\<rparr>;
          s2 = (case m of None \<Rightarrow> s1 | Some m' \<Rightarrow> s1\<lparr>mode := m'\<rparr>);
          s3 = s2\<lparr>session_context := session_context s0 @
                    [\<lparr>ce_role = ''user'', ce_content = msg, ce_timestamp = now env,
                      ce_mode = mode_value (mode s2), ce_execution_result = None,
                      ce_task_id = None\<rparr>]\<rparr>;
          d = dispatch_mode (mode s2) s3 (autonomous_ai mgr) msg env
      in (fst d, mgr\<lparr>active_sessions := (active_sessions mgr)(sid \<mapsto> fst (snd d)),
                     autonomous_ai := snd (snd d)\<rparr>))"
  using assms
  by (cases m) (simp_all add: process_message_def Let_def case_prod_beta)

lemma process_message_unknown:
  assumes "active_sessions mgr sid = None"
  shows "process_message mgr sid msg m env =
           process_message
             (snd (create_chat_session mgr (case m of None \<Rightarrow> ADAPTIVE | Some m' \<Rightarrow> m') None
                     (fresh_session_id env) (now env)))
             (fresh_session_id env) msg m env"
  using assms by (simp add: process_message_def create_chat_session_def)

lemma process_adaptive_mode_offline:
  assumes "intent_llm env = Raises e1" and "task_classifier env = Raises e2"
  shows "\<exists>r. fst (process_adaptive_mode s ai msg env) = Inr r"
proof -
  have an: "analyze_message_intent msg (intent_llm env) = fallback_analysis msg"
    using assms(1) by (simp add: analyze_message_intent_def)
  from fallback_fields[of msg] obtain recommended conf rs i where
    f: "ia_recommended_mode (fallback_analysis msg) = Some recommended"
       "ia_confidence (fallback_analysis msg) = Some conf"
       "ia_reasoning (fallback_analysis msg) = Some rs"
       "ia_intent (fallback_analysis msg) = Some i"
    and rec: "recommended = (if agent_score msg > chat_score msg then ''agent'' else ''chat'')"
    by blast
  show ?thesis
  proof (cases "conf > 0.7")
    case False
    then show ?thesis
      using f by (simp add: process_adaptive_mode_def an case_prod_beta)
  next
    case True
    show ?thesis
    proof (cases "recommended = ''agent''")
      case agent: True
      from process_agent_mode_offline[OF assms(2), of "s\<lparr>mode := AGENT\<rparr>" ai msg]
      obtain r where r: "fst (process_agent_mode (s\<lparr>mode := AGENT\<rparr>) ai msg env) = Inr r" ..
      then show ?thesis
        using f True agent
        by (simp add: process_adaptive_mode_def an ChatMode_of_def case_prod_beta Let_def)
    next
      case False
      then have "recommended = ''chat''" using rec by (simp split: if_splits)
      then show ?thesis
        using f True
        by (simp add: process_adaptive_mode_def an ChatMode_of_def case_prod_beta Let_def)
    qed
  qed
qed

lemma dispatch_mode_offline:
  assumes "intent_llm env = Raises e1" and "task_classifier env = Raises e2"
  shows "\<exists>r. fst (dispatch_mode cm s ai msg env) = Inr r"
  using process_adaptive_mode_offline[OF assms, of s ai msg]
    process_agent_mode_offline[OF assms(2), of s ai msg]
  by (cases cm) (simp_all add: dispatch_mode_def process_custom_mode_def case_prod_beta)

text \<open>
  Claim C9. \<open>process_message\<close> with a session id that is not registered has no "not found"
  outcome: it registers a fresh session under the new uuid, created with the mode passed
  (ADAPTIVE when none is), and processes the message in it: the session has counted one
  message and its context starts with the user's message. Every answer carries the new
  session's id, which differs from the id passed in whenever the uuid drawn does, and the
  unknown id stays unregistered. The call returns an answer in the modes CHAT and CUSTOM,
  and in every mode when the models fail (the fallbacks apply).
  The whole result is that of the mode handler run on the fresh session holding the user's
  message: the answer is the handler's answer, the session stored under the new uuid is
  the handler's session, and the task registry is the handler's. The handler is
  \<open>_process_adaptive_mode\<close> for ADAPTIVE, \<open>_process_agent_mode\<close> for AGENT, and for CHAT and
  CUSTOM the chat answer: the reply of the completion model (or the apology when it fails),
  the suggestions for the message, and the reply appended to the context.
\<close>

theorem process_message_unknown_session:
  assumes "active_sessions mgr sid = None"
  shows "\<exists>session m0 s3 d.
      active_sessions (snd (process_message mgr sid msg m env)) (fresh_session_id env)
        = Some session
    \<and> session_id session = fresh_session_id env
    \<and> session_message_count session = 1
    \<and> prefix [\<lparr>ce_role = ''user'', ce_content = msg, ce_timestamp = now env,
                ce_mode = mode_value (case m of None \<Rightarrow> ADAPTIVE | Some m' \<Rightarrow> m'),
                ce_execution_result = None, ce_task_id = None\<rparr>]
         (session_context session)
    \<and> (\<forall>r. fst (process_message mgr sid msg m env) = Inr r \<longrightarrow>
           r_session_id r = fresh_session_id env)
    \<and> (fresh_session_id env \<noteq> sid \<longrightarrow>
           active_sessions (snd (process_message mgr sid msg m env)) sid = None
         \<and> (\<forall>r. fst (process_message mgr sid msg m env) = Inr r \<longrightarrow> r_session_id r \<noteq> sid))
    \<and> (m = Some CHAT \<or> m = Some CUSTOM
         \<or> (\<exists>e1 e2. intent_llm env = Raises e1 \<and> task_classifier env = Raises e2) \<longrightarrow>
           (\<exists>r. fst (process_message mgr sid msg m env) = Inr r))
    \<and> m0 = (case m of None \<Rightarrow> ADAPTIVE | Some m' \<Rightarrow> m')
    \<and> s3 = \<lparr>session_id = fresh_session_id env, session_user_id = None, mode = m0,
             session_created_at = now env, last_activity = now env,
             session_message_count = 1,
             session_context =
               [\<lparr>ce_role = ''user'', ce_content = msg, ce_timestamp = now env,
                 ce_mode = mode_value m0, ce_execution_result = None, ce_task_id = None\<rparr>],
             workspace_id = None, task_history = [],
             session_preferences = \<lparr>auto_execute = True, show_code = True,
                                      verbose_output = False, safety_checks = True\<rparr>\<rparr>
    \<and> d = dispatch_mode m0 s3 (autonomous_ai mgr) msg env
    \<and> process_message mgr sid msg m env =
          (fst d,
           mgr\<lparr>active_sessions := (active_sessions mgr)(fresh_session_id env \<mapsto> fst (snd d)),
               autonomous_ai := snd (snd d)\<rparr>)
    \<and> session = fst (snd d)
    \<and> (m0 = ADAPTIVE \<longrightarrow> d = process_adaptive_mode s3 (autonomous_ai mgr) msg env)
    \<and> (m0 = AGENT \<longrightarrow> d = process_agent_mode s3 (autonomous_ai mgr) msg env)
    \<and> (m0 = CHAT \<or> m0 = CUSTOM \<longrightarrow>
          d = (Inr \<lparr>r_session_id = fresh_session_id env, r_mode = ''chat'',
                    r_message = generate_chat_response (chat_llm env),
                    r_conversational = Some True,
                    r_suggestions = Some (generate_suggestions msg),
                    r_execution_result = None, r_task_id = None, r_workspace_id = None,
                    r_show_code = None, r_auto_executed = None, r_timestamp = now env,
                    r_adaptive_analysis = None\<rparr>,
               s3\<lparr>session_context := session_context s3 @
                     [\<lparr>ce_role = ''assistant'',
                       ce_content = generate_chat_response (chat_llm env),
                       ce_timestamp = now env, ce_mode = ''chat'',
                       ce_execution_result = None, ce_task_id = None\<rparr>]\<rparr>,
               autonomous_ai mgr))"
proof -
  let ?m0 = "case m of None \<Rightarrow> ADAPTIVE | Some m' \<Rightarrow> m'"
  let ?new = "fresh_session_id env"
  let ?s0 = "\<lparr>session_id = ?new, session_user_id = None, mode = ?m0,
         session_created_at = now env, last_activity = now env, session_message_count = 0,
         session_context = [], workspace_id = None, task_history = [],
         session_preferences = \<lparr>auto_execute = True, show_code = True,
                                  verbose_output = False, safety_checks = True\<rparr>\<rparr>"
  let ?mgr1 = "snd (create_chat_session mgr ?m0 None ?new (now env))"
  have s0: "active_sessions ?mgr1 ?new = Some ?s0"
    by (simp add: create_chat_session_def)
  have other: "?new \<noteq> sid \<Longrightarrow> active_sessions ?mgr1 sid = None"
    using assms by (simp add: create_chat_session_def)
  let ?s1 = "?s0\<lparr>last_activity := now env,
                    session_message_count := session_message_count ?s0 + 1\<rparr>"
  let ?s2 = "case m of None \<Rightarrow> ?s1 | Some m' \<Rightarrow> ?s1\<lparr>mode := m'\<rparr>"
  let ?entry = "\<lparr>ce_role = ''user'', ce_content = msg, ce_timestamp = now env,
                 ce_mode = mode_value (mode ?s2), ce_execution_result = None,
                 ce_task_id = None\<rparr>"
  let ?s3 = "?s2\<lparr>session_context := session_context ?s0 @ [?entry]\<rparr>"
  let ?d = "dispatch_mode (mode ?s2) ?s3 (autonomous_ai ?mgr1) msg env"
  have run: "process_message mgr sid msg m env =
               (fst ?d, ?mgr1\<lparr>active_sessions := (active_sessions ?mgr1)(?new \<mapsto> fst (snd ?d)),
                              autonomous_ai := snd (snd ?d)\<rparr>)"
    unfolding process_message_unknown[OF assms] process_message_known[OF s0] Let_def ..
  have m2: "mode ?s2 = ?m0" by (cases m) simp_all
  have s3: "session_id ?s3 = ?new" "session_message_count ?s3 = 1"
    "session_context ?s3 = [?entry]"
    by (cases m; simp)+
  note d = dispatch_mode_session[of "mode ?s2" ?s3 "autonomous_ai ?mgr1" msg env]
  define s4 where "s4 = fst (snd ?d)"
  have stored: "active_sessions (snd (process_message mgr sid msg m env)) ?new = Some s4"
    unfolding run s4_def by simp
  have a: "session_id s4 = ?new" "session_message_count s4 = 1"
    unfolding s4_def using d s3 by simp_all
  have b: "prefix [?entry] (session_context s4)"
    unfolding s4_def using d s3(3) by simp
  have b': "prefix [\<lparr>ce_role = ''user'', ce_content = msg, ce_timestamp = now env,
                ce_mode = mode_value ?m0, ce_execution_result = None, ce_task_id = None\<rparr>]
         (session_context s4)"
    using b unfolding m2 .
  have c: "r_session_id r = ?new" if "fst (process_message mgr sid msg m env) = Inr r" for r
    using that dispatch_mode_response[of "mode ?s2" ?s3 "autonomous_ai ?mgr1" msg env r] s3(1)
    unfolding run by simp
  have e: "active_sessions (snd (process_message mgr sid msg m env)) sid = None"
    if "?new \<noteq> sid"
    unfolding run using other[OF that] that by simp
  have g: "\<exists>r. fst (process_message mgr sid msg m env) = Inr r"
    if "m = Some CHAT \<or> m = Some CUSTOM
         \<or> (\<exists>e1 e2. intent_llm env = Raises e1 \<and> task_classifier env = Raises e2)"
  proof -
    have "\<exists>r. fst ?d = Inr r"
      using that
    proof (elim disjE exE conjE)
      assume "m = Some CHAT"
      then show ?thesis by (intro dispatch_mode_chat) simp
    next
      assume "m = Some CUSTOM"
      then show ?thesis by (intro dispatch_mode_chat) simp
    next
      fix e1 e2 assume "intent_llm env = Raises e1" "task_classifier env = Raises e2"
      then show ?thesis by (rule dispatch_mode_offline)
    qed
    then show ?thesis unfolding run by simp
  qed
  have k: "\<forall>r. fst (process_message mgr sid msg m env) = Inr r \<longrightarrow> r_session_id r = ?new"
    using c by blast
  have h: "?new \<noteq> sid \<longrightarrow>
           active_sessions (snd (process_message mgr sid msg m env)) sid = None
         \<and> (\<forall>r. fst (process_message mgr sid msg m env) = Inr r \<longrightarrow> r_session_id r \<noteq> sid)"
    using c e by auto
  have g': "m = Some CHAT \<or> m = Some CUSTOM
         \<or> (\<exists>e1 e2. intent_llm env = Raises e1 \<and> task_classifier env = Raises e2) \<longrightarrow>
           (\<exists>r. fst (process_message mgr sid msg m env) = Inr r)"
    using g by (rule impI)
  define m0 where "m0 = ?m0"
  define t3 where "t3 = \<lparr>session_id = ?new, session_user_id = None, mode = m0,
             session_created_at = now env, last_activity = now env,
             session_message_count = 1,
             session_context =
               [\<lparr>ce_role = ''user'', ce_content = msg, ce_timestamp = now env,
                 ce_mode = mode_value m0, ce_execution_result = None, ce_task_id = None\<rparr>],
             workspace_id = None, task_history = [],
             session_preferences = \<lparr>auto_execute = True, show_code = True,
                                      verbose_output = False, safety_checks = True\<rparr>\<rparr>"
  define dd where "dd = dispatch_mode m0 t3 (autonomous_ai mgr) msg env"
  have t3: "?s3 = t3"
    unfolding t3_def m0_def by (cases m) simp_all
  have ai1: "autonomous_ai ?mgr1 = autonomous_ai mgr"
    by (simp add: create_chat_session_def)
  have "?d = dispatch_mode (mode ?s2) t3 (autonomous_ai ?mgr1) msg env"
    by (simp only: t3)
  also have "\<dots> = dd"
    unfolding dd_def m0_def by (simp only: m2 ai1)
  finally have dd: "?d = dd" .
  have run': "process_message mgr sid msg m env =
          (fst dd, mgr\<lparr>active_sessions := (active_sessions mgr)(?new \<mapsto> fst (snd dd)),
                       autonomous_ai := snd (snd dd)\<rparr>)"
    unfolding run dd by (simp add: create_chat_session_def)
  have s4: "s4 = fst (snd dd)"
    unfolding s4_def dd ..
  have ad: "m0 = ADAPTIVE \<longrightarrow> dd = process_adaptive_mode t3 (autonomous_ai mgr) msg env"
    unfolding dd_def by (simp add: dispatch_mode_def)
  have ag: "m0 = AGENT \<longrightarrow> dd = process_agent_mode t3 (autonomous_ai mgr) msg env"
    unfolding dd_def by (simp add: dispatch_mode_def)
  have ch: "m0 = CHAT \<or> m0 = CUSTOM \<longrightarrow>
          dd = (Inr \<lparr>r_session_id = ?new, r_mode = ''chat'',
                    r_message = generate_chat_response (chat_llm env),
                    r_conversational = Some True,
                    r_suggestions = Some (generate_suggestions msg),
                    r_execution_result = None, r_task_id = None, r_workspace_id = None,
                    r_show_code = None, r_auto_executed = None, r_timestamp = now env,
                    r_adaptive_analysis = None\<rparr>,
               t3\<lparr>session_context := session_context t3 @
                     [\<lparr>ce_role = ''assistant'',
                       ce_content = generate_chat_response (chat_llm env),
                       ce_timestamp = now env, ce_mode = ''chat'',
                       ce_execution_result = None, ce_task_id = None\<rparr>]\<rparr>,
               autonomous_ai mgr)"
    unfolding dd_def
    by (auto simp: dispatch_mode_def process_custom_mode_def process_chat_mode_def Let_def t3_def)
  show ?thesis
    apply (rule exI[of _ s4], rule exI[of _ m0], rule exI[of _ t3], rule exI[of _ dd])
    apply (intro conjI)
                  apply (rule stored)
                 apply (rule a(1))
                apply (rule a(2))
               apply (rule b')
              apply (rule k)
             apply (rule h)
            apply (rule g')
           apply (rule m0_def)
          apply (rule t3_def)
         apply (rule dd_def)
        apply (rule run')
       apply (rule s4)
      apply (rule ad)
     apply (rule ag)
    apply (rule ch)
    done
qed

lemma scores_hello:
  "agent_score ''hello'' = 0" "chat_score ''hello'' = 0"
  by (simp_all add: agent_score_def chat_score_def lower_def lower_char_def agent_keywords_def
        chat_keywords_def)

lemma suggestions_hello: "generate_suggestions ''hello'' = []"
  by (simp add: generate_suggestions_def lower_def lower_char_def)

theorem process_message_unknown_session_witness:
  "active_sessions init_manager ''s0'' = None
   \<and> (\<exists>r. fst (process_message init_manager ''s0'' ''hello'' None offline_env) = Inr r
          \<and> r_session_id r = ''s1'' \<and> r_session_id r \<noteq> ''s0'')
   \<and> active_sessions (snd (process_message init_manager ''s0'' ''hello'' None offline_env)) ''s0''
       = None
   \<and> map_option session_id
         (active_sessions (snd (process_message init_manager ''s0'' ''hello'' None offline_env))
            ''s1'') = Some ''s1''
   \<and> fst (process_message init_manager ''s0'' ''hello'' (Some CHAT) offline_env) =
       Inr \<lparr>r_session_id = ''s1'', r_mode = ''chat'',
            r_message = ''I apologize, but I encountered an error while processing your message. Please try again.'',
            r_conversational = Some True, r_suggestions = Some [],
            r_execution_result = None, r_task_id = None, r_workspace_id = None,
            r_show_code = None, r_auto_executed = None, r_timestamp = 1,
            r_adaptive_analysis = None\<rparr>
   \<and> map_option (map ce_role \<circ> session_context)
         (active_sessions
            (snd (process_message init_manager ''s0'' ''hello'' (Some CHAT) offline_env)) ''s1'')
       = Some [''user'', ''assistant'']
   \<and> map_sum id r_message
         (fst (process_message init_manager ''s0'' ''hello'' None offline_env))
       = Inr ''I apologize, but I encountered an error while processing your message. Please try again.''"
proof -
  have none: "active_sessions init_manager ''s0'' = None"
    by (simp add: init_manager_def)
  have env: "fresh_session_id offline_env = ''s1''" "intent_llm offline_env = Raises ''down''"
    "task_classifier offline_env = Raises ''down''" "chat_llm offline_env = Raises ''down''"
    "now offline_env = 1"
    by (simp_all add: offline_env_def)
  note T = process_message_unknown_session[OF none, of "''hello''" _ offline_env]
  have first: "(\<exists>r. fst (process_message init_manager ''s0'' ''hello'' None offline_env) = Inr r
          \<and> r_session_id r = ''s1'' \<and> r_session_id r \<noteq> ''s0'')
   \<and> active_sessions (snd (process_message init_manager ''s0'' ''hello'' None offline_env)) ''s0''
       = None
   \<and> map_option session_id
         (active_sessions (snd (process_message init_manager ''s0'' ''hello'' None offline_env))
            ''s1'') = Some ''s1''"
    using T[of None] unfolding env by auto
  from T[of "Some CHAT"] obtain session m0 s3 d where
    run: "process_message init_manager ''s0'' ''hello'' (Some CHAT) offline_env =
            (fst d, init_manager\<lparr>active_sessions :=
                       (active_sessions init_manager)(fresh_session_id offline_env \<mapsto> fst (snd d)),
                     autonomous_ai := snd (snd d)\<rparr>)"
    and m0: "m0 = (case Some CHAT of None \<Rightarrow> ADAPTIVE | Some m' \<Rightarrow> m')"
    and s3: "s3 = \<lparr>session_id = fresh_session_id offline_env, session_user_id = None, mode = m0,
             session_created_at = now offline_env, last_activity = now offline_env,
             session_message_count = 1,
             session_context =
               [\<lparr>ce_role = ''user'', ce_content = ''hello'', ce_timestamp = now offline_env,
                 ce_mode = mode_value m0, ce_execution_result = None, ce_task_id = None\<rparr>],
             workspace_id = None, task_history = [],
             session_preferences = \<lparr>auto_execute = True, show_code = True,
                                      verbose_output = False, safety_checks = True\<rparr>\<rparr>"
    and chat: "m0 = CHAT \<or> m0 = CUSTOM \<longrightarrow>
          d = (Inr \<lparr>r_session_id = fresh_session_id offline_env, r_mode = ''chat'',
                    r_message = generate_chat_response (chat_llm offline_env),
                    r_conversational = Some True,
                    r_suggestions = Some (generate_suggestions ''hello''),
                    r_execution_result = None, r_task_id = None, r_workspace_id = None,
                    r_show_code = None, r_auto_executed = None, r_timestamp = now offline_env,
                    r_adaptive_analysis = None\<rparr>,
               s3\<lparr>session_context := session_context s3 @
                     [\<lparr>ce_role = ''assistant'',
                       ce_content = generate_chat_response (chat_llm offline_env),
                       ce_timestamp = now offline_env, ce_mode = ''chat'',
                       ce_execution_result = None, ce_task_id = None\<rparr>]\<rparr>,
               autonomous_ai init_manager)"
    by blast
  have second: "fst (process_message init_manager ''s0'' ''hello'' (Some CHAT) offline_env) =
       Inr \<lparr>r_session_id = ''s1'', r_mode = ''chat'',
            r_message = ''I apologize, but I encountered an error while processing your message. Please try again.'',
            r_conversational = Some True, r_suggestions = Some [],
            r_execution_result = None, r_task_id = None, r_workspace_id = None,
            r_show_code = None, r_auto_executed = None, r_timestamp = 1,
            r_adaptive_analysis = None\<rparr>"
    using chat m0 unfolding run by (simp add: env generate_chat_response_def suggestions_hello)
  have third: "map_option (map ce_role \<circ> session_context)
         (active_sessions
            (snd (process_message init_manager ''s0'' ''hello'' (Some CHAT) offline_env)) ''s1'')
       = Some [''user'', ''assistant'']"
    using chat m0 s3 unfolding run by (simp add: env)
  from T[of None] obtain session' m0' s3' d' where
    run': "process_message init_manager ''s0'' ''hello'' None offline_env =
            (fst d', init_manager\<lparr>active_sessions :=
                       (active_sessions init_manager)(fresh_session_id offline_env \<mapsto> fst (snd d')),
                     autonomous_ai := snd (snd d')\<rparr>)"
    and m0': "m0' = (case None of None \<Rightarrow> ADAPTIVE | Some m' \<Rightarrow> m')"
    and ad: "m0' = ADAPTIVE \<longrightarrow>
               d' = process_adaptive_mode s3' (autonomous_ai init_manager) ''hello'' offline_env"
    by blast
  have an: "analyze_message_intent ''hello'' (intent_llm offline_env) = fallback_analysis ''hello''"
    by (simp add: analyze_message_intent_def env)
  have fb: "fallback_analysis ''hello'' =
     \<lparr>ia_intent = Some ''Conversational inquiry'', ia_recommended_mode = Some ''chat'',
      ia_confidence = Some 0.5,
      ia_reasoning = Some ''Message contains 0 conversational keywords''\<rparr>"
    by (simp add: fallback_analysis_def scores_hello str_of_nat_def)
  note low = adaptive_low[of "''hello''" offline_env "''chat''" "0.5"
               "''Message contains 0 conversational keywords''"
               "''Conversational inquiry''" s3' "autonomous_ai init_manager",
               unfolded an fb, simplified]
  have fourth: "map_sum id r_message
         (fst (process_message init_manager ''s0'' ''hello'' None offline_env))
       = Inr ''I apologize, but I encountered an error while processing your message. Please try again.''"
    using ad m0' unfolding run'
    by (simp add: low process_chat_mode_def Let_def generate_chat_response_def env)
  show ?thesis using none first second third fourth by blast
qed

lemma scores_deploy:
  "agent_score ''create and deploy a website'' = 3"
  "chat_score ''create and deploy a website'' = 0"
  by (simp_all add: agent_score_def chat_score_def lower_def lower_char_def agent_keywords_def
        chat_keywords_def)

lemma fallback_deploy:
  "fallback_analysis ''create and deploy a website'' =
     \<lparr>ia_intent = Some ''Task execution request'', ia_recommended_mode = Some ''agent'',
      ia_confidence = Some 0.8,
      ia_reasoning = Some ''Message contains 3 execution-related keywords''\<rparr>"
  by (simp add: fallback_analysis_def scores_deploy str_of_nat_def numeral_3_eq_3)

theorem adaptive_routing_witness:
  "mode (fst (snd (process_adaptive_mode adaptive_session init_ai ''build me a website''
                     offline_env))) = ADAPTIVE
   \<and> mode (fst (snd (process_adaptive_mode adaptive_session init_ai
                       ''create and deploy a website'' offline_env))) = AGENT"
proof -
  let ?msg = "''create and deploy a website''"
  have env: "intent_llm offline_env = Raises ''down''"
    by (simp add: offline_env_def)
  have an: "analyze_message_intent ?msg (intent_llm offline_env) = fallback_analysis ?msg"
    by (simp add: analyze_message_intent_def env)
  have f: "ia_recommended_mode (analyze_message_intent ?msg (intent_llm offline_env))
             = Some ''agent''
         \<and> ia_confidence (analyze_message_intent ?msg (intent_llm offline_env)) = Some 0.8
         \<and> ia_reasoning (analyze_message_intent ?msg (intent_llm offline_env))
             = Some ''Message contains 3 execution-related keywords''
         \<and> ia_intent (analyze_message_intent ?msg (intent_llm offline_env))
             = Some ''Task execution request''"
    by (simp add: an fallback_deploy)
  note R = adaptive_routing[of offline_env "''down''" adaptive_session init_ai ?msg]
  have first: "mode (fst (snd (process_adaptive_mode adaptive_session init_ai
                  ''build me a website'' offline_env))) = ADAPTIVE"
    using R[THEN conjunct1, rule_format, OF env] by (simp add: adaptive_session_def)
  have "(0.8::real) > 0.7 \<longrightarrow> (\<forall>m. ChatMode_of ''agent'' = Inr m \<longrightarrow>
          mode (fst (snd (process_adaptive_mode adaptive_session init_ai ?msg offline_env))) = m
        \<and> (\<forall>r. fst (process_adaptive_mode adaptive_session init_ai ?msg offline_env) = Inr r \<longrightarrow>
               r_mode r = (if ''agent'' = ''agent'' then ''agent'' else ''chat'')
             \<and> r_adaptive_analysis r = Some
                  \<lparr>detected_intent = ''Task execution request'',
                   aa_recommended_mode = ''agent'', aa_confidence = 0.8,
                   aa_reasoning = ''Message contains 3 execution-related keywords'',
                   mode_switched = True, clarification_needed = None\<rparr>))"
    using R[THEN conjunct2, THEN conjunct1, rule_format, OF f] by (rule conjunct2)
  then have second: "mode (fst (snd (process_adaptive_mode adaptive_session init_ai ?msg
                       offline_env))) = AGENT"
    by (simp add: ChatMode_of_def)
  show ?thesis using first second by (rule conjI)
qed

text \<open>
  Claim C3 as stated fails: a fresh adaptive session that receives "build me a website"
  while the intent model is down keeps the stored mode ADAPTIVE; it does not switch to
  AGENT, and the answer is a chat answer with \<open>mode_switched = False\<close>.
\<close>

theorem adaptive_build_website_not_switched:
  "map_option mode
     (active_sessions
        (snd (process_message init_manager ''s0'' ''build me a website'' None offline_env))
        ''s1'') = Some ADAPTIVE
   \<and> map_sum id r_mode
       (fst (process_message init_manager ''s0'' ''build me a website'' None offline_env))
     = Inr ''chat''
   \<and> map_sum id (map_option mode_switched \<circ> r_adaptive_analysis)
       (fst (process_message init_manager ''s0'' ''build me a website'' None offline_env))
     = Inr (Some False)"
proof -
  have none: "active_sessions init_manager ''s0'' = None"
    by (simp add: init_manager_def)
  have an: "analyze_message_intent ''build me a website'' (intent_llm offline_env) =
              fallback_analysis ''build me a website''"
    by (simp add: analyze_message_intent_def offline_env_def)
  note low = adaptive_low[of "''build me a website''" offline_env "''agent''" "0.7"
               "''Message contains 2 execution-related keywords''"
               "''Task execution request''", unfolded an fallback_build, simplified]
  show ?thesis
    unfolding process_message_unknown[OF none]
    by (simp add: process_message_def create_chat_session_def init_manager_def dispatch_mode_def
          low Let_def offline_env_def[THEN arg_cong, of fresh_session_id]
          offline_env_def[THEN arg_cong, of now])
qed

end
